theory Spec2Isabelle
  imports Main "HOL-Library.Word"
begin

unbundle bit_operations_syntax

section \<open>Python values used by extract.py\<close>

text \<open>
  A Python \<open>str\<close> is a sequence of Unicode code points; it is modelled as a list of
  code points (\<open>ord\<close> of each character).  Program constants written as ASCII literals are
  injected with \<open>lit\<close>.  The type tags (\<open>"story"\<close>, \<open>"home"\<close>, \<open>"lyrics"\<close>,
  \<open>"preview"\<close>) and the field names of type trees are only ever compared with ASCII
  literals of the program and stay HOL strings.  \<open>bytes\<close> are lists of 8-bit words.
\<close>

type_synonym pystr = "nat list"
type_synonym byte = "8 word"
type_synonym bytes = "byte list"

definition lit :: "string \<Rightarrow> pystr" where
  "lit s = map of_char s"

text \<open>The exceptions the modelled code can raise.\<close>

datatype pyerror =
    OverflowError
  | ValueError
  | ZeroDivisionError
  | KeyError
  | TypeError
  | AttributeError
  | OSError
  | NotImplementedError
  | UnicodeEncodeError

section \<open>Per-bundle key derivation and stream decryption (class GameBundle)\<close>

definition BUNDLE_BASE_KEY :: string where
  "BUNDLE_BASE_KEY = ''532b4631e4a7b9473e7cfb''"

text \<open>
  \<open>bytes.fromhex\<close> on a string of hexadecimal digits: two digits per byte, \<open>ValueError\<close> on
  any other character or on an odd number of digits.  (Python also skips ASCII whitespace
  between bytes; the only argument in the program is the constant above.)
\<close>

definition hexval :: "char \<Rightarrow> nat option" where
  "hexval c =
     (let n = (of_char c :: nat) in
      if 48 \<le> n \<and> n \<le> 57 then Some (n - 48)
      else if 97 \<le> n \<and> n \<le> 102 then Some (n - 87)
      else if 65 \<le> n \<and> n \<le> 70 then Some (n - 55)
      else None)"

fun bytes_fromhex :: "string \<Rightarrow> pyerror + bytes" where
  "bytes_fromhex [] = Inr []"
| "bytes_fromhex [c] = Inl ValueError"
| "bytes_fromhex (a # b # cs) =
     (case (hexval a, hexval b) of
        (Some x, Some y) \<Rightarrow>
          (case bytes_fromhex cs of
             Inl e \<Rightarrow> Inl e
           | Inr bs \<Rightarrow> Inr (of_nat (16 * x + y) # bs))
      | _ \<Rightarrow> Inl ValueError)"

text \<open>
  \<open>int.to_bytes(8, byteorder="little", signed=True)\<close>: \<open>OverflowError\<close> unless the integer
  fits in 64 signed bits; otherwise byte \<open>j\<close> is digit \<open>j\<close> in base 256 of the integer
  taken modulo \<open>2 ^ 64\<close>.
\<close>

definition to_bytes_8_little_signed :: "int \<Rightarrow> pyerror + bytes" where
  "to_bytes_8_little_signed k =
     (if - (2 ^ 63) \<le> k \<and> k < 2 ^ 63
      then Inr (map (\<lambda>j. word_of_int ((k mod 2 ^ 64) div 256 ^ j)) [0..<8])
      else Inl OverflowError)"

text \<open>
  The body of \<open>GameBundle._create_final_key\<close> after the base key has been decoded:
  a zero-filled \<open>bytearray\<close> of \<open>base_len * 8\<close> bytes, then the two nested
  \<open>enumerate\<close> loops storing \<open>b ^ k\<close> at \<open>(i << 3) + j\<close>.  Every index written is
  below \<open>base_len * 8\<close> (lemma \<open>final_key_loop_closed\<close>), so the \<open>IndexError\<close> of an
  out-of-range \<open>bytearray\<close> store cannot occur.
\<close>

definition final_key_inner :: "nat \<Rightarrow> byte \<Rightarrow> bytes \<Rightarrow> bytes \<Rightarrow> bytes" where
  "final_key_inner baseOffset b bundle_key final_key =
     fold (\<lambda>(j, k) fk. fk[baseOffset + j := b XOR k]) (enumerate 0 bundle_key) final_key"

definition final_key_loop :: "bytes \<Rightarrow> bytes \<Rightarrow> bytes" where
  "final_key_loop base_key bundle_key =
     fold (\<lambda>(i, b) fk. final_key_inner (push_bit 3 i) b bundle_key fk)
       (enumerate 0 base_key) (replicate (length base_key * 8) 0)"

definition create_final_key_from :: "bytes \<Rightarrow> int \<Rightarrow> pyerror + bytes" where
  "create_final_key_from base_key bundle_key =
     (case to_bytes_8_little_signed bundle_key of
        Inl e \<Rightarrow> Inl e
      | Inr bk \<Rightarrow> Inr (final_key_loop base_key bk))"

definition create_final_key :: "int \<Rightarrow> pyerror + bytes" where
  "create_final_key bundle_key =
     (case bytes_fromhex BUNDLE_BASE_KEY of
        Inl e \<Rightarrow> Inl e
      | Inr base_key \<Rightarrow> create_final_key_from base_key bundle_key)"

text \<open>
  \<open>GameBundle._decrypt\<close>: every byte from offset 256 on is XORed in place with
  \<open>final_key[i % len(final_key)]\<close>.  The modulo raises \<open>ZeroDivisionError\<close> at the first
  iteration when the key is empty.
\<close>

definition decrypt_loop :: "bytes \<Rightarrow> bytes \<Rightarrow> bytes" where
  "decrypt_loop final_key data =
     fold (\<lambda>i d. d[i := d ! i XOR final_key ! (i mod length final_key)])
       [256..<length data] data"

definition decrypt :: "int \<Rightarrow> bytes \<Rightarrow> pyerror + bytes" where
  "decrypt bundle_key data =
     (case create_final_key bundle_key of
        Inl e \<Rightarrow> Inl e
      | Inr final_key \<Rightarrow>
          if final_key = [] \<and> 256 < length data then Inl ZeroDivisionError
          else Inr (decrypt_loop final_key data))"

text \<open>
  The bytes \<open>GameBundle.load\<close> hands to the external parser for a file with contents
  \<open>file_data\<close>: the file as it is when \<open>bundle_key == 0\<close>, otherwise the file contents,
  decrypted only when longer than 256 bytes.
\<close>

definition load_data :: "bytes \<Rightarrow> int \<Rightarrow> pyerror + bytes" where
  "load_data file_data bundle_key =
     (if bundle_key = 0 then Inr file_data
      else if 256 < length file_data then decrypt bundle_key file_data
      else Inr file_data)"

section \<open>The composite identifier (class StoryId)\<close>

text \<open>
  The four optional fields hold Python strings or \<open>None\<close>.  \<open>truthy\<close> is Python's
  truth value of such a field: \<open>None\<close> and the empty string are false.
\<close>

record StoryId =
  sid_type :: string
  sid_set :: "pystr option"
  sid_group :: "pystr option"
  sid_id :: "pystr option"
  sid_idx :: "pystr option"

definition truthy :: "pystr option \<Rightarrow> bool" where
  "truthy x = (case x of None \<Rightarrow> False | Some s \<Rightarrow> s \<noteq> [])"

text \<open>\<open>str(x)\<close> inside an f-string for a field that may be \<open>None\<close>.\<close>

definition fmt :: "pystr option \<Rightarrow> pystr" where
  "fmt x = (case x of None \<Rightarrow> lit ''None'' | Some s \<Rightarrow> s)"

text \<open>
  Python slices never raise; out-of-range bounds are clipped.  \<open>slice a b s\<close> is
  \<open>s[a:b]\<close> for literals \<open>0 \<le> a \<le> b\<close>, \<open>drop a s\<close> is \<open>s[a:]\<close>,
  \<open>last_n n s\<close> is \<open>s[-n:]\<close> and \<open>slice_neg a b s\<close> is \<open>s[-a:-b]\<close> for
  positive literals.
\<close>

definition slice :: "nat \<Rightarrow> nat \<Rightarrow> 'a list \<Rightarrow> 'a list" where
  "slice a b s = take (b - a) (drop a s)"

definition last_n :: "nat \<Rightarrow> 'a list \<Rightarrow> 'a list" where
  "last_n n s = drop (length s - n) s"

definition slice_neg :: "nat \<Rightarrow> nat \<Rightarrow> 'a list \<Rightarrow> 'a list" where
  "slice_neg a b s = take ((length s - b) - (length s - a)) (drop (length s - a) s)"

text \<open>\<open>StoryId.__init__\<close>.\<close>

definition StoryId_init ::
  "string \<Rightarrow> pystr option \<Rightarrow> pystr option \<Rightarrow> pystr option \<Rightarrow> pystr option \<Rightarrow> StoryId" where
  "StoryId_init t s g i x =
     (if t = ''lyrics'' \<or> t = ''preview''
      then \<lparr>sid_type = t, sid_set = None, sid_group = None,
            sid_id = (if \<not> truthy i \<and> truthy x then x else i), sid_idx = None\<rparr>
      else \<lparr>sid_type = t, sid_set = s, sid_group = g, sid_id = i, sid_idx = x\<rparr>)"

text \<open>\<open>StoryId.__str__\<close>: the fields that are not \<open>None\<close>, concatenated in order.\<close>

definition StoryId_str :: "StoryId \<Rightarrow> pystr" where
  "StoryId_str s = concat (List.map_filter (\<lambda>x. x) [sid_set s, sid_group s, sid_id s, sid_idx s])"

definition parse :: "string \<Rightarrow> pystr \<Rightarrow> StoryId" where
  "parse text_type s =
     (if text_type = ''lyrics'' \<or> text_type = ''preview''
      then StoryId_init text_type None None (Some s) None
      else if 9 < length s \<and> text_type = ''home''
      then StoryId_init text_type (Some (slice 0 5 s)) (Some (slice 5 7 s))
             (Some (slice 7 11 s)) (Some (drop 11 s))
      else StoryId_init text_type None (Some (slice 0 2 s)) (Some (slice 2 6 s))
             (Some (drop 6 s)))"

definition parseFromPath :: "string \<Rightarrow> pystr \<Rightarrow> StoryId" where
  "parseFromPath text_type path =
     (if text_type = ''home''
      then (let p = last_n 16 path in
            StoryId_init text_type (Some (slice 0 5 p)) (Some (slice 6 8 p))
              (Some (slice 9 13 p)) (Some (drop 13 p)))
      else if text_type = ''lyrics''
      then StoryId_init text_type None None (Some (slice_neg 11 7 path)) None
      else if text_type = ''preview''
      then StoryId_init text_type None None (Some (last_n 4 path)) None
      else (let p = last_n 9 path in
            StoryId_init text_type None (Some (slice 0 2 p)) (Some (slice 2 6 p))
              (Some (slice 6 9 p))))"

text \<open>\<open>StoryId.queryfy\<close>: a fresh StoryId, then the four conditional assignments in order.\<close>

definition queryfy :: "StoryId \<Rightarrow> StoryId" where
  "queryfy storyId =
     (let s0 = StoryId_init (sid_type storyId) (sid_set storyId) (sid_group storyId)
                 (sid_id storyId) (sid_idx storyId);
          s1 = (if sid_set s0 = None \<and> sid_type s0 = ''home''
                then s0\<lparr>sid_set := Some (lit ''_____'')\<rparr> else s0);
          s2 = (if sid_group s1 = None \<and> sid_type s1 \<noteq> ''lyrics''
                then s1\<lparr>sid_group := Some (lit ''__'')\<rparr> else s1);
          s3 = (if sid_id s2 = None then s2\<lparr>sid_id := Some (lit ''____'')\<rparr> else s2);
          s4 = (if sid_idx s3 = None \<and> sid_type s3 \<noteq> ''lyrics'' \<and> sid_type s3 \<noteq> ''preview''
                then s3\<lparr>sid_idx := Some (lit ''___'')\<rparr> else s3)
      in s4)"

text \<open>
  A path is the tuple \<open>parts\<close> of a pure POSIX path of pathlib: for an absolute path the
  root \<open>/\<close> (or \<open>//\<close>) first, then the components, none of which is empty, is \<open>.\<close> or
  contains the separator.  \<open>segment_parts\<close> parses one string segment: leading separators
  give the root (exactly two give \<open>//\<close>), the rest is split at the separator and the
  empty and \<open>.\<close> components are dropped; \<open>..\<close> is kept.  Joining a path with an absolute
  path gives the absolute path, otherwise the parts are appended; \<open>joinpath\<close> joins the
  segments from left to right.  The model is the program on a POSIX platform, where
  file names are compared exactly.
\<close>

type_synonym path = "pystr list"

fun split_sep :: "pystr \<Rightarrow> pystr list" where
  "split_sep [] = [[]]"
| "split_sep (c # cs) =
     (if c = 47 then [] # split_sep cs
      else (case split_sep cs of [] \<Rightarrow> [[c]] | x # xs \<Rightarrow> (c # x) # xs))"

definition segment_parts :: "pystr \<Rightarrow> path" where
  "segment_parts s =
     (let n = length (takeWhile (\<lambda>c. c = 47) s);
          rel = dropWhile (\<lambda>c. c = 47) s
      in (if n = 0 then [] else if n = 2 then [lit ''//''] else [lit ''/''])
         @ filter (\<lambda>x. x \<noteq> [] \<and> x \<noteq> lit ''.'') (split_sep rel))"

definition is_absolute :: "path \<Rightarrow> bool" where
  "is_absolute p = (case p of [] \<Rightarrow> False | x # xs \<Rightarrow> take 1 x = lit ''/'')"

definition join_path :: "path \<Rightarrow> path \<Rightarrow> path" where
  "join_path p q = (if is_absolute q then q else p @ q)"

definition joinpath :: "path \<Rightarrow> pystr list \<Rightarrow> path" where
  "joinpath p segments = foldl (\<lambda>acc s. join_path acc (segment_parts s)) p segments"

definition asPath :: "StoryId \<Rightarrow> path" where
  "asPath s = joinpath [] (List.map_filter (\<lambda>x. x) [sid_set s, sid_group s, sid_id s])"

definition getFilenameIdx :: "StoryId \<Rightarrow> pyerror + pystr option" where
  "getFilenameIdx s =
     (if sid_type s = ''lyrics'' \<or> sid_type s = ''preview'' then Inr (sid_id s)
      else if truthy (sid_idx s) then Inr (sid_idx s)
      else Inl AttributeError)"

section \<open>Constants and utilities\<close>


text \<open>
  \<open>TYPE_CONFIG\<close>, one function per entry of the inner dictionaries; \<open>None\<close> for a type
  that is not a key.
\<close>

definition TYPE_CONFIG_no_wrap :: "string \<Rightarrow> bool option" where
  "TYPE_CONFIG_no_wrap t =
     (if t = ''story'' then Some False
      else if t = ''home'' then Some True
      else if t = ''lyrics'' then Some False
      else if t = ''preview'' then Some False
      else None)"

definition TYPE_CONFIG_pattern :: "string \<Rightarrow> StoryId \<Rightarrow> pystr option" where
  "TYPE_CONFIG_pattern t s =
     (if t = ''story''
      then Some (lit ''story/data/'' @ fmt (sid_group s) @ lit ''/'' @ fmt (sid_id s)
                 @ lit ''/storytimeline%'' @ fmt (sid_idx s))
      else if t = ''home''
      then Some (lit ''home/data/'' @ fmt (sid_set s) @ lit ''/'' @ fmt (sid_group s)
                 @ lit ''/hometimeline_'' @ fmt (sid_set s) @ lit ''_'' @ fmt (sid_group s)
                 @ lit ''_'' @ fmt (sid_id s) @ fmt (sid_idx s) @ lit ''%'')
      else if t = ''lyrics''
      then Some (lit ''live/musicscores/m'' @ fmt (sid_id s) @ lit ''/m'' @ fmt (sid_id s)
                 @ lit ''_lyrics'')
      else if t = ''preview''
      then Some (lit ''outgame/announceevent/loguiasset/ast_announce_event_log_ui_asset_0''
                 @ fmt (sid_id s))
      else None)"

definition TYPE_CONFIG_filename :: "string \<Rightarrow> StoryId \<Rightarrow> pystr \<Rightarrow> pystr option" where
  "TYPE_CONFIG_filename t s title =
     (if t = ''story'' then Some (lit ''storytimeline_'' @ StoryId_str s @ lit ''.json'')
      else if t = ''home''
      then Some (lit ''hometimeline_'' @ fmt (sid_set s) @ lit ''_'' @ fmt (sid_group s)
                 @ lit ''_'' @ fmt (sid_id s) @ fmt (sid_idx s) @ lit ''.json'')
      else if t = ''lyrics'' then Some (fmt (sid_id s) @ lit ''.json'')
      else if t = ''preview''
      then Some (if title \<noteq> [] then fmt (sid_id s) @ lit '' ('' @ title @ lit '').json''
                 else fmt (sid_id s) @ lit ''.json'')
      else None)"

definition sanitizeFilename :: "pystr \<Rightarrow> pystr" where
  "sanitizeFilename fn =
     filter (\<lambda>c. 31 < c \<and> c \<notin> {34, 42, 47, 58, 60, 62, 63, 92, 124}) fn"

text \<open>
  The field widths the data model gives each kind: Story has group (2), id (4) and idx (3)
  and no set; Home has set (5), group (2), id (4) and an idx of any length; Lyrics and
  Preview have the id (4) alone.
\<close>

definition has_width :: "nat \<Rightarrow> pystr option \<Rightarrow> bool" where
  "has_width n x = (case x of None \<Rightarrow> False | Some s \<Rightarrow> length s = n)"

definition valid_id :: "StoryId \<Rightarrow> bool" where
  "valid_id s =
     (if sid_type s = ''story''
      then sid_set s = None \<and> has_width 2 (sid_group s) \<and> has_width 4 (sid_id s)
           \<and> has_width 3 (sid_idx s)
      else if sid_type s = ''home''
      then has_width 5 (sid_set s) \<and> has_width 2 (sid_group s) \<and> has_width 4 (sid_id s)
           \<and> sid_idx s \<noteq> None
      else if sid_type s = ''lyrics'' \<or> sid_type s = ''preview''
      then sid_set s = None \<and> sid_group s = None \<and> has_width 4 (sid_id s)
           \<and> sid_idx s = None
      else False)"

section \<open>Bundle files and the patched marker\<close>

text \<open>
  A file under the asset root is absent (\<open>None\<close> in the store), present but not readable
  (a directory, a permission error), or has contents.  \<open>read_last2\<close> is
  \<open>open(path, "rb")\<close>, \<open>f.seek(-2, os.SEEK_END)\<close>, \<open>f.read(2)\<close>: opening an absent or
  unreadable file and seeking before the start of a file shorter than two bytes raise
  \<open>OSError\<close>.
\<close>

datatype disk_file = Unreadable | Content bytes

definition editMark :: bytes where
  "editMark = [0x08, 0x04]"

definition read_last2 :: "disk_file option \<Rightarrow> pyerror + bytes" where
  "read_last2 f =
     (case f of
        None \<Rightarrow> Inl OSError
      | Some Unreadable \<Rightarrow> Inl OSError
      | Some (Content bs) \<Rightarrow>
          if length bs < 2 then Inl OSError else Inr (drop (length bs - 2) bs))"

text \<open>\<open>GameBundle.is_patched\<close>: any exception gives \<open>False\<close>.\<close>

definition is_patched :: "(path \<rightharpoonup> disk_file) \<Rightarrow> path \<Rightarrow> bool" where
  "is_patched files p =
     (case read_last2 (files p) of Inl e \<Rightarrow> False | Inr m \<Rightarrow> m = editMark)"

text \<open>
  \<open>GameBundle.createPath(GAME_ASSET_ROOT, name)\<close>: the shard directory \<open>name[0:2]\<close>,
  then the name.  A relative result is a path below the asset root, which is left
  implicit; a name that starts with the separator gives an absolute path.
\<close>

definition createPath :: "pystr \<Rightarrow> path" where
  "createPath name = joinpath [] [slice 0 2 name, name]"

section \<open>The object graph of the external parser\<close>

text \<open>
  The values found in a type tree: \<open>None\<close>, integers, strings, lists and dictionaries
  with string keys (in insertion order).
\<close>

datatype pyval =
    PNone
  | PInt int
  | PStr pystr
  | PList "pyval list"
  | PDict "(string \<times> pyval) list"

type_synonym pydict = "(string \<times> pyval) list"

fun truthy_val :: "pyval \<Rightarrow> bool" where
  "truthy_val PNone = False"
| "truthy_val (PInt n) = (n \<noteq> 0)"
| "truthy_val (PStr s) = (s \<noteq> [])"
| "truthy_val (PList xs) = (xs \<noteq> [])"
| "truthy_val (PDict d) = (d \<noteq> [])"

text \<open>\<open>d[k]\<close> and \<open>d.get(k, default)\<close> on a dictionary, \<open>v[k]\<close> with a string key on any value.\<close>

definition dict_getitem :: "pydict \<Rightarrow> string \<Rightarrow> pyerror + pyval" where
  "dict_getitem d k = (case map_of d k of None \<Rightarrow> Inl KeyError | Some v \<Rightarrow> Inr v)"

definition dict_get :: "pydict \<Rightarrow> string \<Rightarrow> pyval \<Rightarrow> pyval" where
  "dict_get d k dflt = (case map_of d k of None \<Rightarrow> dflt | Some v \<Rightarrow> v)"

definition getitem :: "pyval \<Rightarrow> string \<Rightarrow> pyerror + pyval" where
  "getitem v k = (case v of PDict d \<Rightarrow> dict_getitem d k | _ \<Rightarrow> Inl TypeError)"

text \<open>
  What a \<open>for\<close> loop iterates over: the items of a list, the characters of a string, the
  keys of a dictionary; \<open>TypeError\<close> for \<open>None\<close> and integers.
\<close>

definition iterate :: "pyval \<Rightarrow> pyerror + pyval list" where
  "iterate v =
     (case v of
        PList xs \<Rightarrow> Inr xs
      | PStr s \<Rightarrow> Inr (map (\<lambda>c. PStr [c]) s)
      | PDict d \<Rightarrow> Inr (map (\<lambda>(k, _). PStr (lit k)) d)
      | _ \<Rightarrow> Inl TypeError)"

text \<open>
  An object of the parsed bundle (an \<open>ObjectReader\<close>).  Its attribute
  \<open>serialized_type\<close> is missing (\<open>hasattr\<close> is false), or \<open>None\<close>, or a type whose
  \<open>nodes\<close> are truthy or not; \<open>typetree\<close> is what \<open>read_typetree()\<close> returns or raises.
  The parser is a parameter of the model.  \<open>UnityPy.load\<close> is given either the path of
  a file, which it reads itself (whatever the file is), or bytes; it returns the objects
  of the bundle and the table from path ids to objects that \<open>_resolve_assets\<close> picks, or
  raises.
\<close>

datatype serialized_type = NoAttr | TypeNone | TypeNodes bool

record reader =
  serialized_type :: serialized_type
  typetree :: "pyerror + pydict"

record unity_env =
  env_objects :: "reader list"
  env_files :: "(int \<times> reader) list"

datatype load_source = OfPath disk_file | OfBytes bytes

type_synonym parser = "load_source \<Rightarrow> pyerror + unity_env"

text \<open>\<open>obj.serialized_type.nodes\<close> as a truth value.\<close>

definition nodes_of :: "reader \<Rightarrow> pyerror + bool" where
  "nodes_of obj =
     (case serialized_type obj of
        NoAttr \<Rightarrow> Inl AttributeError
      | TypeNone \<Rightarrow> Inl AttributeError
      | TypeNodes b \<Rightarrow> Inr b)"

text \<open>
  The loop of \<open>GameBundle.load\<close> that picks \<open>rootAsset\<close>: the first object with type
  nodes whose tree has a \<open>BlockList\<close> or a \<open>TextTrack\<close> key; an exception while reading
  an object skips it.
\<close>

fun find_root :: "reader list \<Rightarrow> reader option" where
  "find_root [] = None"
| "find_root (obj # objs) =
     (case serialized_type obj of
        NoAttr \<Rightarrow> find_root objs
      | TypeNone \<Rightarrow> find_root objs
      | TypeNodes False \<Rightarrow> find_root objs
      | TypeNodes True \<Rightarrow>
          (case typetree obj of
             Inl e \<Rightarrow> find_root objs
           | Inr tree \<Rightarrow>
               if map_of tree ''BlockList'' = None \<and> map_of tree ''TextTrack'' = None
               then find_root objs
               else Some obj))"

text \<open>
  \<open>GameBundle.load\<close> for a bundle whose file is \<open>f\<close>.  The result \<open>None\<close> is the early
  return for a file that does not exist, which leaves the attribute \<open>rootAsset\<close> unset;
  otherwise the root object, if any, and the assets map.  With \<open>bundle_key == 0\<close> the
  parser is given the path and the program does not open the file; otherwise
  \<open>read_bytes()\<close> raises \<open>OSError\<close> for an unreadable file, and the parser is given the
  bytes of \<open>load_data\<close>.
\<close>

record loaded =
  rootAsset :: "reader option"
  assets :: "(int \<times> reader) list"

definition parser_input :: "disk_file \<Rightarrow> int \<Rightarrow> pyerror + load_source" where
  "parser_input f bundle_key =
     (if bundle_key = 0 then Inr (OfPath f)
      else (case f of
              Unreadable \<Rightarrow> Inl OSError
            | Content file_data \<Rightarrow>
                (case load_data file_data bundle_key of
                   Inl e \<Rightarrow> Inl e
                 | Inr d \<Rightarrow> Inr (OfBytes d))))"

definition load :: "parser \<Rightarrow> disk_file option \<Rightarrow> int \<Rightarrow> pyerror + loaded option" where
  "load unitypy f bundle_key =
     (case f of
        None \<Rightarrow> Inr None
      | Some file_on_disk \<Rightarrow>
          (case parser_input file_on_disk bundle_key of
             Inl e \<Rightarrow> Inl e
           | Inr src \<Rightarrow>
               (case unitypy src of
                  Inl e \<Rightarrow> Inl e
                | Inr env \<Rightarrow>
                    (let root = find_root (env_objects env) in
                     Inr (Some \<lparr>rootAsset = root,
                                assets = (if root = None then [] else env_files env)\<rparr>)))))"

section \<open>Text extraction (extractText, extractAsset)\<close>

text \<open>
  The argument \<open>obj\<close> of \<open>extractText\<close> is a plain value of a type tree (a dictionary or
  a row) or an object of the bundle.  Subscripting an object raises \<open>TypeError\<close>; a plain
  value has no attribute \<open>serialized_type\<close>.  The result is a dictionary or \<open>None\<close>.
\<close>

datatype text_source = Row pyval | Obj reader

fun collect :: "('a \<Rightarrow> pyerror + 'b) \<Rightarrow> 'a list \<Rightarrow> pyerror + 'b list" where
  "collect f [] = Inr []"
| "collect f (x # xs) =
     (case f x of
        Inl e \<Rightarrow> Inl e
      | Inr y \<Rightarrow> (case collect f xs of Inl e \<Rightarrow> Inl e | Inr ys \<Rightarrow> Inr (y # ys)))"

definition add_choices :: "pydict \<Rightarrow> pydict \<Rightarrow> pyerror + pydict" where
  "add_choices tree o_dict =
     (case map_of tree ''ChoiceDataList'' of
        None \<Rightarrow> Inr o_dict
      | Some cl \<Rightarrow>
          if truthy_val cl
          then (case iterate cl of
                  Inl e \<Rightarrow> Inl e
                | Inr cs \<Rightarrow>
                    (case collect (\<lambda>c. getitem c ''Text'') cs of
                       Inl e \<Rightarrow> Inl e
                     | Inr ts \<Rightarrow>
                         Inr (o_dict @
                              [(''choices'', PList (map (\<lambda>t. PDict [(''jpText'', t)]) ts))])))
          else Inr o_dict)"

definition extractText :: "string \<Rightarrow> text_source \<Rightarrow> pyerror + pydict option" where
  "extractText assetType obj =
     (if assetType = ''race''
      then (case obj of
              Obj r \<Rightarrow> Inl TypeError
            | Row v \<Rightarrow>
                (case getitem v ''text'' of
                   Inl e \<Rightarrow> Inl e
                 | Inr t \<Rightarrow> Inr (Some [(''jpText'', t), (''enText'', PStr [])])))
      else if assetType = ''lyrics''
      then (case obj of
              Obj r \<Rightarrow> Inl TypeError
            | Row v \<Rightarrow>
                (case iterate v of
                   Inl e \<Rightarrow> Inl e
                 | Inr (time # txt # rest) \<Rightarrow>
                     Inr (Some [(''jpText'', txt), (''enText'', PStr []), (''time'', time)])
                 | Inr _ \<Rightarrow> Inl ValueError))
      else if assetType = ''preview''
      then (case obj of
              Obj r \<Rightarrow> Inl TypeError
            | Row v \<Rightarrow>
                (case getitem v ''Name'' of
                   Inl e \<Rightarrow> Inl e
                 | Inr n \<Rightarrow>
                     (case getitem v ''Text'' of
                        Inl e \<Rightarrow> Inl e
                      | Inr t \<Rightarrow> Inr (Some [(''jpName'', n), (''jpText'', t)]))))
      else (case obj of
              Row v \<Rightarrow> Inl AttributeError
            | Obj r \<Rightarrow>
                (case nodes_of r of
                   Inl e \<Rightarrow> Inl e
                 | Inr False \<Rightarrow> Inr None
                 | Inr True \<Rightarrow>
                     (case typetree r of
                        Inl e \<Rightarrow> Inl e
                      | Inr tree \<Rightarrow>
                          (case dict_getitem tree ''Name'' of
                             Inl e \<Rightarrow> Inl e
                           | Inr n \<Rightarrow>
                               (case dict_getitem tree ''Text'' of
                                  Inl e \<Rightarrow> Inl e
                                | Inr t \<Rightarrow>
                                    (case dict_getitem tree ''NextBlock'' of
                                       Inl e \<Rightarrow> Inl e
                                     | Inr nb \<Rightarrow>
                                         (case add_choices tree
                                                 [(''jpName'', n), (''jpText'', t),
                                                  (''nextBlock'', nb)] of
                                            Inl e \<Rightarrow> Inl e
                                          | Inr o_dict \<Rightarrow>
                                              Inr (if truthy_val t then Some o_dict
                                                   else None)))))))))"

text \<open>
  One entry of \<open>text_block_list\<close> and the exported document.  \<open>choice_texts\<close> is the
  comprehension \<open>[c["jpText"] for c in textData["choices"] if c.get("jpText")]\<close>; the
  value under \<open>"choices"\<close> is always the list of one-key dictionaries that \<open>extractText\<close>
  built.
\<close>

record block =
  blk_name :: pyval
  blk_text :: pyval
  blk_choice_data_list :: "pyval list option"

record export =
  exp_title :: pyval
  exp_no_wrap :: bool
  exp_text_block_list :: "block list"

definition choice_texts :: "pyval \<Rightarrow> pyval list" where
  "choice_texts cs =
     (case cs of
        PList xs \<Rightarrow>
          List.map_filter
            (\<lambda>c. case c of
                    PDict d \<Rightarrow>
                      (case map_of d ''jpText'' of
                         None \<Rightarrow> None
                       | Some t \<Rightarrow> if truthy_val t then Some t else None)
                  | _ \<Rightarrow> None) xs
      | _ \<Rightarrow> [])"

definition h_block :: "pydict \<Rightarrow> block" where
  "h_block textData =
     \<lparr>blk_name = dict_get textData ''jpName'' (PStr []),
      blk_text = dict_get textData ''jpText'' (PStr []),
      blk_choice_data_list =
        (case map_of textData ''choices'' of
           None \<Rightarrow> None
         | Some cs \<Rightarrow> if choice_texts cs = [] then None else Some (choice_texts cs))\<rparr>"

text \<open>
  \<open>pathId not in asset.assets\<close> and \<open>asset.assets[pathId]\<close>: the keys are integers; a
  list or a dictionary is unhashable.
\<close>

definition lookup_asset :: "(int \<times> reader) list \<Rightarrow> pyval \<Rightarrow> pyerror + reader option" where
  "lookup_asset tbl pathId =
     (case pathId of
        PInt n \<Rightarrow> Inr (map_of tbl n)
      | PList xs \<Rightarrow> Inl TypeError
      | PDict d \<Rightarrow> Inl TypeError
      | _ \<Rightarrow> Inr None)"

text \<open>The body of the inner loop over the clips of a block (kinds story and home).\<close>

definition clip_block :: "(int \<times> reader) list \<Rightarrow> string \<Rightarrow> pyval \<Rightarrow> pyerror + block list" where
  "clip_block tbl t clip =
     (case getitem clip ''m_PathID'' of
        Inl e \<Rightarrow> Inl e
      | Inr pathId \<Rightarrow>
          (case lookup_asset tbl pathId of
             Inl e \<Rightarrow> Inl e
           | Inr None \<Rightarrow> Inr []
           | Inr (Some obj) \<Rightarrow>
               (case extractText t (Obj obj) of
                  Inl e \<Rightarrow> Inl e
                | Inr None \<Rightarrow> Inr []
                | Inr (Some textData) \<Rightarrow>
                    if textData = [] then Inr [] else Inr [h_block textData])))"

definition block_blocks :: "(int \<times> reader) list \<Rightarrow> string \<Rightarrow> pyval \<Rightarrow> pyerror + block list" where
  "block_blocks tbl t blk =
     (case getitem blk ''TextTrack'' of
        Inl e \<Rightarrow> Inl e
      | Inr track \<Rightarrow>
          (case getitem track ''ClipList'' of
             Inl e \<Rightarrow> Inl e
           | Inr cl \<Rightarrow>
               (case iterate cl of
                  Inl e \<Rightarrow> Inl e
                | Inr clips \<Rightarrow>
                    (case collect (clip_block tbl t) clips of
                       Inl e \<Rightarrow> Inl e
                     | Inr bs \<Rightarrow> Inr (concat bs)))))"

definition story_blocks :: "(int \<times> reader) list \<Rightarrow> string \<Rightarrow> pydict \<Rightarrow> pyerror + block list" where
  "story_blocks tbl t tree =
     (case dict_getitem tree ''BlockList'' of
        Inl e \<Rightarrow> Inl e
      | Inr bl \<Rightarrow>
          (case iterate bl of
             Inl e \<Rightarrow> Inl e
           | Inr blks \<Rightarrow>
               (case collect (block_blocks tbl t) blks of
                  Inl e \<Rightarrow> Inl e
                | Inr bs \<Rightarrow> Inr (concat bs))))"

text \<open>The loop over \<open>tree["DataArray"]\<close> (kind preview).\<close>

definition preview_block :: "pyval \<Rightarrow> pyerror + block list" where
  "preview_block blk =
     (case extractText ''preview'' (Row blk) of
        Inl e \<Rightarrow> Inl e
      | Inr None \<Rightarrow> Inr []
      | Inr (Some textData) \<Rightarrow>
          if textData = [] then Inr []
          else Inr [\<lparr>blk_name = dict_get textData ''jpName'' (PStr []),
                     blk_text = dict_get textData ''jpText'' (PStr []),
                     blk_choice_data_list = None\<rparr>])"

definition preview_blocks :: "pydict \<Rightarrow> pyerror + block list" where
  "preview_blocks tree =
     (case dict_getitem tree ''DataArray'' of
        Inl e \<Rightarrow> Inl e
      | Inr arr \<Rightarrow>
          (case iterate arr of
             Inl e \<Rightarrow> Inl e
           | Inr blks \<Rightarrow>
               (case collect preview_block blks of
                  Inl e \<Rightarrow> Inl e
                | Inr bs \<Rightarrow> Inr (concat bs))))"

text \<open>
  The command-line arguments the extraction reads: the type (one of \<open>TARGET_TYPES\<close>, by
  the \<open>choices\<close> of the argument parser), the output directory and the overwrite flag.
\<close>

record Args =
  args_type :: string
  args_dst :: path
  args_overwrite :: bool

text \<open>
  The characters \<open>sanitizeFilename\<close> sees when it iterates over its argument and takes
  \<open>ord(c)\<close>: the characters of a string; for a list or a dictionary every item or key
  has to be a string of one character; \<open>None\<close> and integers are not iterable.
\<close>

definition one_char :: "pyval \<Rightarrow> pyerror + nat" where
  "one_char v = (case v of PStr [c] \<Rightarrow> Inr c | _ \<Rightarrow> Inl TypeError)"

definition chars_of :: "pyval \<Rightarrow> pyerror + pystr" where
  "chars_of v =
     (case v of
        PStr s \<Rightarrow> Inr s
      | _ \<Rightarrow> (case iterate v of Inl e \<Rightarrow> Inl e | Inr xs \<Rightarrow> collect one_char xs))"

text \<open>
  The file name \<open>extractAsset\<close> computes (its last section): the story and home
  templates, and for the other kinds the sanitized title in parentheses after
  \<open>storyId.idx\<close>, or \<open>getFilenameIdx()\<close> alone when the sanitized title is empty.
\<close>

definition asset_filename :: "string \<Rightarrow> StoryId \<Rightarrow> pyval \<Rightarrow> pyerror + pystr" where
  "asset_filename t storyId title_val =
     (if t = ''story''
      then Inr (lit ''storytimeline_'' @ StoryId_str storyId @ lit ''.json'')
      else if t = ''home''
      then Inr (lit ''hometimeline_'' @ fmt (sid_set storyId) @ lit ''_''
                @ fmt (sid_group storyId) @ lit ''_'' @ fmt (sid_id storyId)
                @ fmt (sid_idx storyId) @ lit ''.json'')
      else (case chars_of title_val of
              Inl e \<Rightarrow> Inl e
            | Inr raw_title \<Rightarrow>
                (let title = sanitizeFilename raw_title in
                 if title \<noteq> []
                 then Inr (fmt (sid_idx storyId) @ lit '' ('' @ title @ lit '')'' @ lit ''.json'')
                 else (case getFilenameIdx storyId of
                         Inl e \<Rightarrow> Inl e
                       | Inr idx \<Rightarrow> Inr (fmt idx @ lit ''.json'')))))"

text \<open>
  \<open>extractAsset\<close> for a bundle whose file is \<open>f\<close>: load, the two guards on the root
  object, the export dictionary, the loop of the kind (there are branches for story and
  home, and for preview), the check for an empty block list, the file name.
\<close>

definition extractAsset ::
  "parser \<Rightarrow> disk_file option \<Rightarrow> int \<Rightarrow> StoryId \<Rightarrow> Args \<Rightarrow> pyerror + (export \<times> pystr) option" where
  "extractAsset unitypy f bundle_key storyId current_args =
     (case load unitypy f bundle_key of
        Inl e \<Rightarrow> Inl e
      | Inr None \<Rightarrow> Inr None
      | Inr (Some asset) \<Rightarrow>
          (case rootAsset asset of
             None \<Rightarrow> Inr None
           | Some root \<Rightarrow>
               (case serialized_type root of
                  NoAttr \<Rightarrow> Inr None
                | TypeNone \<Rightarrow> Inl AttributeError
                | TypeNodes False \<Rightarrow> Inr None
                | TypeNodes True \<Rightarrow>
                    (case typetree root of
                       Inl e \<Rightarrow> Inl e
                     | Inr tree \<Rightarrow>
                         (case TYPE_CONFIG_no_wrap (args_type current_args) of
                            None \<Rightarrow> Inl KeyError
                          | Some nw \<Rightarrow>
                              (case (if args_type current_args = ''story''
                                        \<or> args_type current_args = ''home''
                                     then story_blocks (assets asset) (args_type current_args) tree
                                     else if args_type current_args = ''preview''
                                     then preview_blocks tree
                                     else Inr []) of
                                 Inl e \<Rightarrow> Inl e
                               | Inr blocks \<Rightarrow>
                                   if blocks = [] then Inr None
                                   else (case asset_filename (args_type current_args) storyId
                                                (dict_get tree ''Title'' (PStr [])) of
                                           Inl e \<Rightarrow> Inl e
                                         | Inr filename \<Rightarrow>
                                             Inr (Some
                                               (\<lparr>exp_title = dict_get tree ''Title'' (PStr []),
                                                 exp_no_wrap = nw,
                                                 exp_text_block_list = blocks\<rparr>,
                                                filename)))))))))"

section \<open>The per-record task and the batch (exportAsset, main)\<close>

text \<open>
  The file system the tasks see: the bundle files, keyed by the path \<open>createPath\<close>
  gives, and the files under the output directory, as a list of paths with their
  contents, the latest write first.  A file written by \<open>writeJson\<close> holds the document,
  or a prefix of its text when the encoder stopped at a character it cannot encode.  No
  task writes a bundle file; a path is the only name of its file (no \<open>..\<close> component or
  link leads to the same file by another path); directories are left implicit.
\<close>

datatype json_file = Document export | Truncated export

record filesystem =
  bundles :: "path \<rightharpoonup> disk_file"
  outputs :: "(path \<times> json_file) list"

text \<open>
  What the platform does and the program does not decide, as parameters: the parser; the
  outcome of \<open>Path.glob\<close> for a pattern in which the identifier contributes a wildcard
  or a separator, given the files that exist, the directory and the pattern; and the
  exception, if any, that creating the directories and opening a file for writing raise
  for a path, given the files that exist.
\<close>

record platform =
  unitypy :: parser
  pathlib_glob :: "path list \<Rightarrow> path \<Rightarrow> pystr \<Rightarrow> pyerror + bool"
  os_write_error :: "path list \<Rightarrow> path \<Rightarrow> pyerror option"

definition exists_output :: "filesystem \<Rightarrow> path \<Rightarrow> bool" where
  "exists_output fs p = (map_of (outputs fs) p \<noteq> None)"

text \<open>
  \<open>any(exportDir.glob(f"{prefix}*.json"))\<close>.  When the prefix has none of the characters
  \<open>*\<close>, \<open>?\<close>, \<open>[\<close> and \<open>/\<close>, the pattern is one relative component whose only wildcard
  is the \<open>*\<close> of the program, and it matches the entries directly in \<open>exportDir\<close> whose
  name starts with the prefix and ends with \<open>.json\<close> after it.  With any of these
  characters the pattern can have several components, other wildcards, or be refused by
  \<open>glob\<close> with \<open>NotImplementedError\<close> or \<open>ValueError\<close>: the outcome is the platform's.
\<close>

definition plain_prefix :: "pystr \<Rightarrow> bool" where
  "plain_prefix prefix = list_all (\<lambda>c. c \<notin> {42, 63, 91, 47}) prefix"

definition matches_glob :: "pystr \<Rightarrow> pystr \<Rightarrow> bool" where
  "matches_glob prefix name =
     (take (length prefix) name = prefix \<and> length prefix + 5 \<le> length name
      \<and> last_n 5 name = lit ''.json'')"

definition any_glob :: "platform \<Rightarrow> filesystem \<Rightarrow> path \<Rightarrow> pystr \<Rightarrow> pyerror + bool" where
  "any_glob pf fs exportDir prefix =
     (if plain_prefix prefix
      then Inr (list_ex
                  (\<lambda>(p, doc). p \<noteq> [] \<and> butlast p = exportDir \<and> matches_glob prefix (last p))
                  (outputs fs))
      else pathlib_glob pf (map fst (outputs fs)) exportDir (prefix @ lit ''*.json''))"

definition export_dir :: "Args \<Rightarrow> StoryId \<Rightarrow> path" where
  "export_dir current_args storyId =
     (let exportDir = joinpath (args_dst current_args) [lit (args_type current_args)] in
      if args_type current_args = ''lyrics'' \<or> args_type current_args = ''preview''
      then exportDir
      else join_path exportDir (asPath storyId))"

text \<open>
  The section "Skip if output exists" of \<open>exportAsset\<close>: whether the task returns early.
  \<open>getFilenameIdx\<close> and \<open>glob\<close> are called outside the \<open>try\<close> block, so their
  exceptions leave the task.
\<close>

definition output_exists :: "platform \<Rightarrow> filesystem \<Rightarrow> Args \<Rightarrow> StoryId \<Rightarrow> pyerror + bool" where
  "output_exists pf fs current_args storyId =
     (if args_overwrite current_args then Inr False
      else if args_type current_args = ''story''
      then Inr (exists_output fs
                  (joinpath (export_dir current_args storyId)
                     [lit ''storytimeline_'' @ StoryId_str storyId @ lit ''.json'']))
      else if args_type current_args = ''home''
      then Inr (exists_output fs
                  (joinpath (export_dir current_args storyId)
                     [lit ''hometimeline_'' @ fmt (sid_set storyId) @ lit ''_''
                      @ fmt (sid_group storyId) @ lit ''_'' @ fmt (sid_id storyId)
                      @ fmt (sid_idx storyId) @ lit ''.json'']))
      else (case getFilenameIdx storyId of
              Inl e \<Rightarrow> Inl e
            | Inr idx \<Rightarrow> any_glob pf fs (export_dir current_args storyId) (fmt idx)))"

text \<open>
  \<open>exportDir.mkdir(parents=True, exist_ok=True)\<close> and \<open>writeJson\<close>.  Creating the
  directories or opening the file can raise, and then no file is written.  Once the file
  is open, \<open>json.dump\<close> with \<open>ensure_ascii=False\<close> into a UTF-8 text file raises
  \<open>UnicodeEncodeError\<close> at a surrogate code point (D800 to DFFF) in any string of the
  document, and leaves the file with the text before it.  The values of a document are
  \<open>None\<close>, integers, strings, lists and dictionaries with string keys, all of which
  \<open>json\<close> serializes.
\<close>

fun encodable :: "pyval \<Rightarrow> bool" where
  "encodable PNone = True"
| "encodable (PInt n) = True"
| "encodable (PStr s) = list_all (\<lambda>c. c < 55296 \<or> 57343 < c) s"
| "encodable (PList xs) = list_all encodable xs"
| "encodable (PDict d) = list_all (\<lambda>kv. encodable (snd kv)) d"

definition encodable_block :: "block \<Rightarrow> bool" where
  "encodable_block b =
     (encodable (blk_name b) \<and> encodable (blk_text b)
      \<and> (case blk_choice_data_list b of None \<Rightarrow> True | Some cs \<Rightarrow> list_all encodable cs))"

definition encodable_export :: "export \<Rightarrow> bool" where
  "encodable_export data =
     (encodable (exp_title data) \<and> list_all encodable_block (exp_text_block_list data))"

definition writeJson ::
  "platform \<Rightarrow> filesystem \<Rightarrow> path \<Rightarrow> export \<Rightarrow> pyerror option \<times> filesystem" where
  "writeJson pf fs file_path data =
     (case os_write_error pf (map fst (outputs fs)) file_path of
        Some e \<Rightarrow> (Some e, fs)
      | None \<Rightarrow>
          if encodable_export data
          then (None, fs\<lparr>outputs := (file_path, Document data) # outputs fs\<rparr>)
          else (Some UnicodeEncodeError,
                fs\<lparr>outputs := (file_path, Truncated data) # outputs fs\<rparr>))"

text \<open>
  The sections "Create bundle", "Extract" and "Write output" of \<open>exportAsset\<close>, reached
  when the bundle file exists and is not patched: any exception of \<open>extractAsset\<close> is
  caught and gives \<open>None\<close>; a result is written under the export directory, outside the
  \<open>try\<close> block, so an exception of the write leaves the task.
\<close>

definition extract_and_write ::
  "platform \<Rightarrow> filesystem \<Rightarrow> path \<Rightarrow> int \<Rightarrow> StoryId \<Rightarrow> Args
     \<Rightarrow> (pyerror + pystr option) \<times> filesystem" where
  "extract_and_write pf fs bundle_path bundle_key storyId current_args =
     (case extractAsset (unitypy pf) (bundles fs bundle_path) bundle_key storyId current_args of
        Inl e \<Rightarrow> (Inr None, fs)
      | Inr None \<Rightarrow> (Inr None, fs)
      | Inr (Some (outData, filename)) \<Rightarrow>
          (case writeJson pf fs (joinpath (export_dir current_args storyId) [filename]) outData of
             (Some e, fs') \<Rightarrow> (Inl e, fs')
           | (None, fs') \<Rightarrow> (Inr (Some filename), fs')))"

text \<open>
  \<open>exportAsset\<close>: the value returned (\<open>None\<close> or the file name) or the exception raised,
  and the file system after the task.
\<close>

definition exportAsset ::
  "platform \<Rightarrow> filesystem \<Rightarrow> pystr \<Rightarrow> pystr \<Rightarrow> int \<Rightarrow> Args
     \<Rightarrow> (pyerror + pystr option) \<times> filesystem" where
  "exportAsset pf fs bundle_hash unity_path bundle_key current_args =
     (let storyId = parseFromPath (args_type current_args) unity_path in
      case output_exists pf fs current_args storyId of
        Inl e \<Rightarrow> (Inl e, fs)
      | Inr True \<Rightarrow> (Inr None, fs)
      | Inr False \<Rightarrow>
          (let bundle_path = createPath bundle_hash in
           if bundles fs bundle_path = None then (Inr None, fs)
           else if is_patched (bundles fs) bundle_path then (Inr None, fs)
           else extract_and_write pf fs bundle_path bundle_key storyId current_args))"

text \<open>
  The batch of \<open>main\<close>, from the pre-flight check on: \<open>q\<close> is the list of rows
  \<open>(h, n, e)\<close> the index query returned.  When the bundle of the first row is not on
  disk the function prints the critical error and returns before any task is submitted.
  Otherwise one task per row is submitted and every task runs; the results are tallied:
  a truthy result counts as extracted, any other as skipped, and an exception of a task
  is raised again by \<open>future.result()\<close>, which ends \<open>main\<close> without a tally.  The tasks
  are run here in the order of submission, which is the schedule of a pool with one
  worker.
\<close>

type_synonym row = "pystr \<times> pystr \<times> int"

datatype run = Preflight_failed | Raised pyerror | Finished nat nat

fun run_tasks ::
  "platform \<Rightarrow> Args \<Rightarrow> filesystem \<Rightarrow> row list \<Rightarrow> (pyerror + pystr option) list \<times> filesystem" where
  "run_tasks pf current_args fs [] = ([], fs)"
| "run_tasks pf current_args fs ((bundle, unity_path, key) # q) =
     (case exportAsset pf fs bundle unity_path key current_args of
        (res, fs') \<Rightarrow>
          (case run_tasks pf current_args fs' q of
             (results, fs'') \<Rightarrow> (res # results, fs'')))"

fun tally :: "(pyerror + pystr option) list \<Rightarrow> nat \<Rightarrow> nat \<Rightarrow> run" where
  "tally [] success skipped = Finished success skipped"
| "tally (Inl e # results) success skipped = Raised e"
| "tally (Inr res # results) success skipped =
     (if truthy res then tally results (success + 1) skipped
      else tally results success (skipped + 1))"

definition main_extract :: "platform \<Rightarrow> Args \<Rightarrow> filesystem \<Rightarrow> row list \<Rightarrow> run \<times> filesystem" where
  "main_extract pf current_args fs q =
     (case q of
        [] \<Rightarrow> (Finished 0 0, fs)
      | (sample_hash, sample_path, sample_key) # rest \<Rightarrow>
          if bundles fs (createPath sample_hash) = None then (Preflight_failed, fs)
          else (case run_tasks pf current_args fs q of
                  (results, fs') \<Rightarrow> (tally results 0 0, fs')))"







section \<open>Key derivation and decryption: the loops in closed form\<close>

lemma base_key_bytes:
  "bytes_fromhex BUNDLE_BASE_KEY =
     Inr [0x53, 0x2b, 0x46, 0x31, 0xe4, 0xa7, 0xb9, 0x47, 0x3e, 0x7c, 0xfb]"
  by (simp add: BUNDLE_BASE_KEY_def hexval_def)

lemma final_key_inner_closed:
  "baseOffset + m + length ks \<le> length fk \<Longrightarrow>
   fold (\<lambda>(j, k) fk. fk[baseOffset + j := b XOR k]) (enumerate m ks) fk =
     take (baseOffset + m) fk @ map ((XOR) b) ks @ drop (baseOffset + m + length ks) fk"
proof (induction ks arbitrary: m fk)
  case Nil
  then show ?case by simp
next
  case (Cons k ks)
  let ?fk = "fk[baseOffset + m := b XOR k]"
  have lt: "baseOffset + m < length fk" using Cons.prems by simp
  have "fold (\<lambda>(j, k) fk. fk[baseOffset + j := b XOR k]) (enumerate m (k # ks)) fk =
        fold (\<lambda>(j, k) fk. fk[baseOffset + j := b XOR k]) (enumerate (Suc m) ks) ?fk"
    by simp
  also have "\<dots> = take (baseOffset + Suc m) ?fk @ map ((XOR) b) ks
                     @ drop (baseOffset + Suc m + length ks) ?fk"
    using Cons.prems by (intro Cons.IH) simp
  also have "take (baseOffset + Suc m) ?fk = take (baseOffset + m) fk @ [b XOR k]"
    using lt by (simp add: take_Suc_conv_app_nth)
  also have "drop (baseOffset + Suc m + length ks) ?fk = drop (baseOffset + m + length (k # ks)) fk"
    by simp
  finally show ?case by simp
qed

lemma final_key_outer_closed:
  "length bk = 8 \<Longrightarrow> (n + length xs) * 8 \<le> length acc \<Longrightarrow>
   fold (\<lambda>(i, b) fk. final_key_inner (push_bit 3 i) b bk fk) (enumerate n xs) acc =
     take (n * 8) acc @ concat (map (\<lambda>b. map ((XOR) b) bk) xs) @ drop ((n + length xs) * 8) acc"
proof (induction xs arbitrary: n acc)
  case Nil
  then show ?case by simp
next
  case (Cons x xs)
  let ?acc = "final_key_inner (push_bit 3 n) x bk acc"
  have inner: "?acc = take (n * 8) acc @ map ((XOR) x) bk @ drop (n * 8 + 8) acc"
    unfolding final_key_inner_def
    using final_key_inner_closed [of "push_bit 3 n" 0 bk acc x] Cons.prems
    by (simp add: push_bit_eq_mult)
  have len: "length ?acc = length acc"
    using Cons.prems by (simp add: inner)
  have "fold (\<lambda>(i, b) fk. final_key_inner (push_bit 3 i) b bk fk) (enumerate n (x # xs)) acc =
        fold (\<lambda>(i, b) fk. final_key_inner (push_bit 3 i) b bk fk) (enumerate (Suc n) xs) ?acc"
    by simp
  also have "\<dots> = take (Suc n * 8) ?acc @ concat (map (\<lambda>b. map ((XOR) b) bk) xs)
                     @ drop ((Suc n + length xs) * 8) ?acc"
    using Cons.prems len by (intro Cons.IH) simp_all
  also have "take (Suc n * 8) ?acc = take (n * 8) acc @ map ((XOR) x) bk"
    using Cons.prems by (simp add: inner)
  also have "drop ((Suc n + length xs) * 8) ?acc = drop ((n + length (x # xs)) * 8) acc"
    using Cons.prems by (simp add: inner ac_simps)
  finally show ?case by simp
qed

lemma final_key_loop_closed:
  "length bk = 8 \<Longrightarrow>
   final_key_loop base_key bk = concat (map (\<lambda>b. map ((XOR) b) bk) base_key)"
  unfolding final_key_loop_def
  using final_key_outer_closed [of bk 0 base_key "replicate (length base_key * 8) 0"]
  by simp

lemma concat_rows_length:
  "length (concat (map (\<lambda>b. map (f b) bk) xs)) = length xs * length bk"
  by (induction xs) simp_all

lemma concat_rows_nth:
  "i < length xs \<Longrightarrow> j < length bk \<Longrightarrow>
   concat (map (\<lambda>b. map (f b) bk) xs) ! (i * length bk + j) = f (xs ! i) (bk ! j)"
proof (induction xs arbitrary: i)
  case Nil
  then show ?case by simp
next
  case (Cons x xs)
  show ?case
  proof (cases i)
    case 0
    with Cons.prems show ?thesis by (simp add: nth_append)
  next
    case (Suc i')
    with Cons.prems have "i' < length xs" by simp
    from Cons.IH [OF this Cons.prems(2)] Suc show ?thesis
      by (simp add: nth_append add.assoc)
  qed
qed

lemma to_bytes_byte:
  "word_of_int ((k mod 2 ^ 64) div 256 ^ j) = (ucast (drop_bit (8 * j) (word_of_int k :: 64 word)) :: byte)"
proof -
  have e: "(256::int) ^ j = 2 ^ (8 * j)"
    by (simp add: power_mult)
  have "(k mod 2 ^ 64) div 256 ^ j = drop_bit (8 * j) (take_bit 64 k)"
    by (simp add: e drop_bit_eq_div take_bit_eq_mod)
  then show ?thesis
    by (auto simp add: bit_eq_iff bit_simps)
qed

lemma decrypt_fold:
  "b \<le> length d \<Longrightarrow>
   length (fold (\<lambda>i d. d[i := d ! i XOR fk ! (i mod length fk)]) [a..<b] d) = length d \<and>
   (\<forall>i<length d.
      fold (\<lambda>i d. d[i := d ! i XOR fk ! (i mod length fk)]) [a..<b] d ! i =
        (if a \<le> i \<and> i < b then d ! i XOR fk ! (i mod length fk) else d ! i))"
proof (induction b)
  case 0
  then show ?case by simp
next
  case (Suc b)
  show ?case
  proof (cases "a \<le> b")
    case True
    then have "[a..<Suc b] = [a..<b] @ [b]" by simp
    with Suc show ?thesis
      by (auto simp add: nth_list_update)
  next
    case False
    then show ?thesis by auto
  qed
qed

lemma decrypt_loop_length: "length (decrypt_loop fk d) = length d"
  unfolding decrypt_loop_def using decrypt_fold [of "length d" d fk 256] by simp

lemma decrypt_loop_nth:
  "i < length d \<Longrightarrow>
   decrypt_loop fk d ! i = (if 256 \<le> i then d ! i XOR fk ! (i mod length fk) else d ! i)"
  unfolding decrypt_loop_def using decrypt_fold [of "length d" d fk 256] by simp

lemma decrypt_loop_short: "length d \<le> 256 \<Longrightarrow> decrypt_loop fk d = d"
  by (simp add: decrypt_loop_def)

lemma decrypt_loop_involution: "decrypt_loop fk (decrypt_loop fk d) = d"
  by (rule nth_equalityI) (simp_all add: decrypt_loop_length decrypt_loop_nth xor.assoc)

lemma to_bytes_in_range:
  "- (2 ^ 63) \<le> k \<Longrightarrow> k < 2 ^ 63 \<Longrightarrow>
   to_bytes_8_little_signed k =
     Inr (map (\<lambda>j. ucast (drop_bit (8 * j) (word_of_int k :: 64 word))) [0..<8])"
  unfolding to_bytes_8_little_signed_def to_bytes_byte by simp

lemma create_final_key_from_closed:
  "- (2 ^ 63) \<le> k \<Longrightarrow> k < 2 ^ 63 \<Longrightarrow>
   create_final_key_from base_key k =
     Inr (concat (map (\<lambda>b. map ((XOR) b)
            (map (\<lambda>j. ucast (drop_bit (8 * j) (word_of_int k :: 64 word))) [0..<8])) base_key))"
  by (simp add: create_final_key_from_def to_bytes_in_range final_key_loop_closed del: upt.simps)

lemma create_final_key_base:
  "create_final_key k =
     create_final_key_from [0x53, 0x2b, 0x46, 0x31, 0xe4, 0xa7, 0xb9, 0x47, 0x3e, 0x7c, 0xfb] k"
  by (simp add: create_final_key_def base_key_bytes)

lemma create_final_key_in_range:
  assumes "- (2 ^ 63) \<le> k" and "k < 2 ^ 63"
  shows "\<exists>dk. create_final_key k = Inr dk \<and> length dk = 88"
  using assms
  by (simp add: create_final_key_base create_final_key_from_closed concat_rows_length
        del: upt.simps)

lemma create_final_key_one:
  "create_final_key 1 =
     Inr [82, 83, 83, 83, 83, 83, 83, 83, 42, 43, 43, 43, 43, 43, 43, 43, 71,
      70, 70, 70, 70, 70, 70, 70, 48, 49, 49, 49, 49, 49, 49, 49, 229, 228,
      228, 228, 228, 228, 228, 228, 166, 167, 167, 167, 167, 167, 167, 167,
      184, 185, 185, 185, 185, 185, 185, 185, 70, 71, 71, 71, 71, 71, 71,
      71, 63, 62, 62, 62, 62, 62, 62, 62, 125, 124, 124, 124, 124, 124, 124,
      124, 250, 251, 251, 251, 251, 251, 251, 251]"
  by code_simp

section \<open>Key derivation and decryption: the claims\<close>

text \<open>
  Claim C1.  For every base key and every record key that fits in 64 signed bits, the key
  derivation encodes the record key as 8 bytes, byte \<open>j\<close> being bits \<open>8j\<close> to \<open>8j + 7\<close>
  of the 64-bit two's-complement word of the record key (little-endian), and returns a
  buffer of length \<open>len(baseKey) * 8\<close> whose byte at index \<open>i * 8 + j\<close> is
  \<open>baseKey[i] XOR recordKeyBytes[j]\<close>.  The derivation is a function of its two
  arguments, so equal inputs give the same bytes.
\<close>

theorem create_final_key_spec:
  assumes "- (2 ^ 63) \<le> recordKey" and "recordKey < 2 ^ 63"
  shows "\<exists>recordKeyBytes output.
           to_bytes_8_little_signed recordKey = Inr recordKeyBytes \<and>
           length recordKeyBytes = 8 \<and>
           sint (word_of_int recordKey :: 64 word) = recordKey \<and>
           (\<forall>j<8. recordKeyBytes ! j =
                     ucast (drop_bit (8 * j) (word_of_int recordKey :: 64 word))) \<and>
           create_final_key_from baseKey recordKey = Inr output \<and>
           length output = length baseKey * 8 \<and>
           (\<forall>i<length baseKey. \<forall>j<8.
              output ! (i * 8 + j) = baseKey ! i XOR recordKeyBytes ! j)"
proof -
  let ?kb = "map (\<lambda>j. ucast (drop_bit (8 * j) (word_of_int recordKey :: 64 word))) [0..<8] :: bytes"
  let ?out = "concat (map (\<lambda>b. map ((XOR) b) ?kb) baseKey)"
  have len: "length ?kb = 8" by simp
  have a: "to_bytes_8_little_signed recordKey = Inr ?kb"
    using assms by (rule to_bytes_in_range)
  have s: "sint (word_of_int recordKey :: 64 word) = recordKey"
    using assms by (simp add: sint_sbintrunc' signed_take_bit_int_eq_self)
  have b: "\<forall>j<8. ?kb ! j = ucast (drop_bit (8 * j) (word_of_int recordKey :: 64 word))"
    by (simp del: upt.simps)
  have c: "create_final_key_from baseKey recordKey = Inr ?out"
    using assms by (rule create_final_key_from_closed)
  have d: "length ?out = length baseKey * 8"
    using concat_rows_length [of "(XOR)" ?kb baseKey] len by simp
  have e: "\<forall>i<length baseKey. \<forall>j<8. ?out ! (i * 8 + j) = baseKey ! i XOR ?kb ! j"
    using concat_rows_nth [of _ baseKey _ ?kb "(XOR)"] len by (simp del: upt.simps)
  from len a s b c d e show ?thesis by blast
qed

text \<open>
  The theorem of C1 at the base key \<open>53 2b\<close> and the record key \<open>-2\<close>, whose encoding is
  \<open>fe ff ff ff ff ff ff ff\<close>.
\<close>

theorem create_final_key_spec_witness:
  "\<exists>output. create_final_key_from [0x53, 0x2b] (- 2) = Inr output \<and> length output = 16 \<and>
     output ! 8 = 0x2b XOR 0xfe \<and> output ! 15 = 0x2b XOR 0xff"
proof -
  have r: "- (2 ^ 63) \<le> (- 2 :: int)" "(- 2 :: int) < 2 ^ 63" by simp_all
  from create_final_key_spec [OF r, of "[0x53, 0x2b]"]
  obtain kb out where
    kb: "\<forall>j<8. kb ! j = (ucast (drop_bit (8 * j) (word_of_int (- 2) :: 64 word)) :: byte)" and
    out: "create_final_key_from [0x53, 0x2b] (- 2) = Inr out" "length out = length [0x53 :: byte, 0x2b] * 8" and
    nth: "\<forall>i<length [0x53 :: byte, 0x2b]. \<forall>j<8. out ! (i * 8 + j) = [0x53, 0x2b] ! i XOR kb ! j"
    by blast
  have k0: "kb ! 0 = 0xfe" using kb by simp
  have k7: "kb ! 7 = 0xff" using kb by simp
  have o8: "out ! 8 = 0x2b XOR 0xfe" using nth [rule_format, of 1 0] k0 by simp
  have o15: "out ! 15 = 0x2b XOR 0xff" using nth [rule_format, of 1 7] k7 by simp
  from out o8 o15 show ?thesis by simp
qed

text \<open>
  Claim C2.  With a zero record key the bytes handed to the parser are the file's bytes.
  With a non-zero record key that fits in 64 signed bits, the bytes below offset 256 are
  unchanged, every byte at an offset of 256 or more is XORed with
  \<open>derivedKey[offset % len(derivedKey)]\<close>, and a buffer of at most 256 bytes is returned
  unchanged.
\<close>

theorem load_data_spec:
  "load_data raw 0 = Inr raw \<and>
   (recordKey \<noteq> 0 \<and> - (2 ^ 63) \<le> recordKey \<and> recordKey < 2 ^ 63 \<longrightarrow>
     (\<exists>derivedKey out.
        create_final_key recordKey = Inr derivedKey \<and>
        load_data raw recordKey = Inr out \<and>
        length out = length raw \<and>
        (\<forall>offset<length raw. offset < 256 \<longrightarrow> out ! offset = raw ! offset) \<and>
        (\<forall>offset<length raw. 256 \<le> offset \<longrightarrow>
           out ! offset = raw ! offset XOR derivedKey ! (offset mod length derivedKey)) \<and>
        (length raw \<le> 256 \<longrightarrow> out = raw)))"
proof (intro conjI impI)
  show "load_data raw 0 = Inr raw" by (simp add: load_data_def)
next
  assume k: "recordKey \<noteq> 0 \<and> - (2 ^ 63) \<le> recordKey \<and> recordKey < 2 ^ 63"
  then obtain dk where dk: "create_final_key recordKey = Inr dk" "length dk = 88"
    using create_final_key_in_range by blast
  then have ne: "dk \<noteq> []" by auto
  have out: "load_data raw recordKey = Inr (decrypt_loop dk raw)"
    using k dk ne by (simp add: load_data_def decrypt_def decrypt_loop_short)
  show "\<exists>derivedKey out.
        create_final_key recordKey = Inr derivedKey \<and>
        load_data raw recordKey = Inr out \<and>
        length out = length raw \<and>
        (\<forall>offset<length raw. offset < 256 \<longrightarrow> out ! offset = raw ! offset) \<and>
        (\<forall>offset<length raw. 256 \<le> offset \<longrightarrow>
           out ! offset = raw ! offset XOR derivedKey ! (offset mod length derivedKey)) \<and>
        (length raw \<le> 256 \<longrightarrow> out = raw)"
    using dk(1) out
    by (intro exI [of _ dk] exI [of _ "decrypt_loop dk raw"])
       (simp add: decrypt_loop_length decrypt_loop_nth decrypt_loop_short)
qed

text \<open>
  The theorem of C2 on a buffer of 258 bytes with record key 1: offsets 256 and 257 use
  bytes 80 and 81 of the derived key.
\<close>

theorem load_data_spec_witness:
  "\<exists>out. load_data (replicate 256 0 @ [1, 2]) 1 = Inr out \<and> length out = 258 \<and>
     out ! 255 = 0 \<and> out ! 256 = 0xfb \<and> out ! 257 = 0xf9"
proof -
  let ?raw = "replicate 256 0 @ [1, 2] :: bytes"
  from load_data_spec [of ?raw 1] obtain out where
    out: "load_data ?raw 1 = Inr out" "length out = length ?raw" and
    low: "\<forall>offset<length ?raw. offset < 256 \<longrightarrow> out ! offset = ?raw ! offset" and
    high: "\<forall>offset<length ?raw. 256 \<le> offset \<longrightarrow>
             out ! offset = ?raw ! offset XOR
               [82, 83, 83, 83, 83, 83, 83, 83, 42, 43, 43, 43, 43, 43, 43, 43, 71,
      70, 70, 70, 70, 70, 70, 70, 48, 49, 49, 49, 49, 49, 49, 49, 229, 228,
      228, 228, 228, 228, 228, 228, 166, 167, 167, 167, 167, 167, 167, 167,
      184, 185, 185, 185, 185, 185, 185, 185, 70, 71, 71, 71, 71, 71, 71,
      71, 63, 62, 62, 62, 62, 62, 62, 62, 125, 124, 124, 124, 124, 124, 124,
      124, 250, 251, 251, 251, 251, 251, 251, 251] ! (offset mod 88)"
    unfolding create_final_key_one by auto
  have a: "out ! 255 = 0" using low [rule_format, of 255] by (simp add: nth_append)
  have b: "out ! 256 = 0xfb" using high [rule_format, of 256] by (simp add: nth_append)
  have c: "out ! 257 = 0xf9" using high [rule_format, of 257] by (simp add: nth_append)
  from out a b c show ?thesis by simp
qed

text \<open>
  Claim C3.  For every byte buffer and every non-zero record key that fits in 64 signed
  bits, decoding twice with the same key gives the original buffer back.
\<close>

theorem load_data_involution:
  assumes "k \<noteq> 0" and "- (2 ^ 63) \<le> k" and "k < 2 ^ 63"
  shows "\<exists>decoded. load_data raw k = Inr decoded \<and> load_data decoded k = Inr raw"
proof -
  from assms obtain dk where dk: "create_final_key k = Inr dk" "length dk = 88"
    using create_final_key_in_range by blast
  then have ne: "dk \<noteq> []" by auto
  have 1: "load_data raw k = Inr (decrypt_loop dk raw)"
    using assms dk ne by (simp add: load_data_def decrypt_def decrypt_loop_short)
  have 2: "load_data (decrypt_loop dk raw) k = Inr raw"
    using assms dk ne
    by (simp add: load_data_def decrypt_def decrypt_loop_length decrypt_loop_involution
          decrypt_loop_short linorder_not_less)
  from 1 2 show ?thesis by blast
qed

text \<open>The theorem of C3 on the 258-byte buffer above.\<close>

theorem load_data_involution_witness:
  "\<exists>decoded. load_data (replicate 256 0 @ [1, 2]) 1 = Inr decoded \<and>
     load_data decoded 1 = Inr (replicate 256 0 @ [1, 2])"
  using load_data_involution [of 1 "replicate 256 0 @ [1, 2]"] by simp

section \<open>The identifier codec: helper lemmas\<close>

lemma has_width_Some: "has_width n x \<Longrightarrow> \<exists>s. x = Some s \<and> length s = n"
  by (cases x) (simp_all add: has_width_def)

lemma parse_story:
  assumes "length g = 2" and "length i = 4"
  shows "parse ''story'' (g @ i @ x) =
           \<lparr>sid_type = ''story'', sid_set = None, sid_group = Some g, sid_id = Some i,
            sid_idx = Some x\<rparr>"
  using assms by (simp add: parse_def StoryId_init_def slice_def)

lemma parse_home:
  assumes "length s = 5" and "length g = 2" and "length i = 4"
  shows "parse ''home'' (s @ g @ i @ x) =
           \<lparr>sid_type = ''home'', sid_set = Some s, sid_group = Some g, sid_id = Some i,
            sid_idx = Some x\<rparr>"
  using assms by (simp add: parse_def StoryId_init_def slice_def)

lemma parse_flat:
  assumes "t = ''lyrics'' \<or> t = ''preview''"
  shows "parse t i =
           \<lparr>sid_type = t, sid_set = None, sid_group = None, sid_id = Some i, sid_idx = None\<rparr>"
  using assms by (auto simp add: parse_def StoryId_init_def truthy_def)

lemma init_lyrics:
  "StoryId_init ''lyrics'' s g i x =
     \<lparr>sid_type = ''lyrics'', sid_set = None, sid_group = None,
      sid_id = (if \<not> truthy i \<and> truthy x then x else i), sid_idx = None\<rparr>"
  by (simp add: StoryId_init_def)

lemma init_preview:
  "StoryId_init ''preview'' s g i x =
     \<lparr>sid_type = ''preview'', sid_set = None, sid_group = None,
      sid_id = (if \<not> truthy i \<and> truthy x then x else i), sid_idx = None\<rparr>"
  by (simp add: StoryId_init_def)

lemma queryfy_lyrics:
  "sid_type storyId = ''lyrics'' \<Longrightarrow>
   sid_set (queryfy storyId) = None \<and> sid_group (queryfy storyId) = None \<and>
   sid_idx (queryfy storyId) = None"
  by (simp add: queryfy_def init_lyrics Let_def)

lemma queryfy_preview:
  "sid_type storyId = ''preview'' \<Longrightarrow>
   sid_set (queryfy storyId) = None \<and> sid_group (queryfy storyId) = Some (lit ''__'') \<and>
   sid_idx (queryfy storyId) = None"
  by (simp add: queryfy_def init_preview Let_def)

lemma parse_lyrics: "parse ''lyrics'' tok = StoryId_init ''lyrics'' None None (Some tok) None"
  by (simp add: parse_def)

lemma parse_preview: "parse ''preview'' tok = StoryId_init ''preview'' None None (Some tok) None"
  by (simp add: parse_def)

lemma parseFromPath_lyrics:
  "parseFromPath ''lyrics'' p = StoryId_init ''lyrics'' None None (Some (slice_neg 11 7 p)) None"
  by (simp add: parseFromPath_def)

lemma parseFromPath_preview:
  "parseFromPath ''preview'' p = StoryId_init ''preview'' None None (Some (last_n 4 p)) None"
  by (simp add: parseFromPath_def)

lemma preview_pattern_ignores_group:
  "TYPE_CONFIG_pattern ''preview'' (s\<lparr>sid_group := grp\<rparr>) = TYPE_CONFIG_pattern ''preview'' s"
  by (simp add: TYPE_CONFIG_pattern_def)

section \<open>The identifier codec: the claims\<close>

text \<open>
  Claim C4.  For every identifier of kind Story, Home, Lyrics or Preview whose fields are
  present with the widths of the data model, parsing the rendered string form gives the
  identifier back; the identifier is also the one the constructor builds from its fields.
\<close>

theorem parse_str_roundtrip:
  assumes "valid_id s"
  shows "parse (sid_type s) (StoryId_str s) = s \<and>
         StoryId_init (sid_type s) (sid_set s) (sid_group s) (sid_id s) (sid_idx s) = s"
proof -
  consider (story) "sid_type s = ''story''" | (home) "sid_type s = ''home''"
    | (flat) "sid_type s = ''lyrics'' \<or> sid_type s = ''preview''"
    using assms by (auto simp add: valid_id_def split: if_splits)
  then show ?thesis
  proof cases
    case story
    with assms obtain g i x where
      f: "sid_set s = None" "sid_group s = Some g" "sid_id s = Some i" "sid_idx s = Some x"
      and w: "length g = 2" "length i = 4"
      by (auto simp add: valid_id_def dest!: has_width_Some)
    from story f have s: "s = \<lparr>sid_type = ''story'', sid_set = None, sid_group = Some g,
        sid_id = Some i, sid_idx = Some x\<rparr>"
      by (cases s) simp
    show ?thesis
      using parse_story [OF w, of x]
      by (simp add: s StoryId_str_def List.map_filter_simps StoryId_init_def)
  next
    case home
    with assms obtain st g i x where
      f: "sid_set s = Some st" "sid_group s = Some g" "sid_id s = Some i" "sid_idx s = Some x"
      and w: "length st = 5" "length g = 2" "length i = 4"
      by (auto simp add: valid_id_def dest!: has_width_Some)
    from home f have s: "s = \<lparr>sid_type = ''home'', sid_set = Some st, sid_group = Some g,
        sid_id = Some i, sid_idx = Some x\<rparr>"
      by (cases s) simp
    show ?thesis
      using parse_home [OF w, of x]
      by (simp add: s StoryId_str_def List.map_filter_simps StoryId_init_def)
  next
    case flat
    with assms obtain i where
      f: "sid_set s = None" "sid_group s = None" "sid_id s = Some i" "sid_idx s = None"
      by (auto simp add: valid_id_def dest!: has_width_Some)
    from f have s: "s = \<lparr>sid_type = sid_type s, sid_set = None, sid_group = None,
        sid_id = Some i, sid_idx = None\<rparr>"
      by (cases s) simp
    have str: "StoryId_str s = i"
      by (simp add: StoryId_str_def List.map_filter_simps f)
    have "parse (sid_type s) i = s"
      using parse_flat [OF flat, of i] s by simp
    moreover have "StoryId_init (sid_type s) None None (Some i) None = s"
      using flat s by (auto simp add: StoryId_init_def truthy_def)
    ultimately show ?thesis by (simp add: str f)
  qed
qed

text \<open>The theorem of C4 at one identifier of each kind.\<close>

theorem parse_str_roundtrip_witness:
  "parse ''story'' (lit ''041001003'') =
     \<lparr>sid_type = ''story'', sid_set = None, sid_group = Some (lit ''04''),
      sid_id = Some (lit ''1001''), sid_idx = Some (lit ''003'')\<rparr> \<and>
   parse ''home'' (lit ''000010110010012'') =
     \<lparr>sid_type = ''home'', sid_set = Some (lit ''00001''), sid_group = Some (lit ''01''),
      sid_id = Some (lit ''1001''), sid_idx = Some (lit ''0012'')\<rparr> \<and>
   parse ''lyrics'' (lit ''1001'') =
     \<lparr>sid_type = ''lyrics'', sid_set = None, sid_group = None,
      sid_id = Some (lit ''1001''), sid_idx = None\<rparr> \<and>
   parse ''preview'' (lit ''0042'') =
     \<lparr>sid_type = ''preview'', sid_set = None, sid_group = None,
      sid_id = Some (lit ''0042''), sid_idx = None\<rparr>"
proof -
  let ?a = "\<lparr>sid_type = ''story'', sid_set = None, sid_group = Some (lit ''04''),
      sid_id = Some (lit ''1001''), sid_idx = Some (lit ''003'')\<rparr>"
  let ?b = "\<lparr>sid_type = ''home'', sid_set = Some (lit ''00001''), sid_group = Some (lit ''01''),
      sid_id = Some (lit ''1001''), sid_idx = Some (lit ''0012'')\<rparr>"
  let ?c = "\<lparr>sid_type = ''lyrics'', sid_set = None, sid_group = None,
      sid_id = Some (lit ''1001''), sid_idx = None\<rparr>"
  let ?d = "\<lparr>sid_type = ''preview'', sid_set = None, sid_group = None,
      sid_id = Some (lit ''0042''), sid_idx = None\<rparr>"
  have v: "valid_id ?a" "valid_id ?b" "valid_id ?c" "valid_id ?d"
    by (simp_all add: valid_id_def has_width_def lit_def)
  have str: "StoryId_str ?a = lit ''041001003''" "StoryId_str ?b = lit ''000010110010012''"
    "StoryId_str ?c = lit ''1001''" "StoryId_str ?d = lit ''0042''"
    by (simp_all add: StoryId_str_def List.map_filter_simps lit_def)
  show ?thesis
    using parse_str_roundtrip [OF v(1)] parse_str_roundtrip [OF v(2)]
      parse_str_roundtrip [OF v(3)] parse_str_roundtrip [OF v(4)]
    by (simp add: str)
qed

text \<open>
  Claim C5, as stated, fails for kind Preview: \<open>queryfy\<close> guards the group placeholder
  with \<open>s.type != 'lyrics'\<close> only, so the group of a queryfied Preview identifier is the
  two-underscore placeholder.
\<close>

theorem queryfy_preview_group_counterexample:
  "sid_type (parse ''preview'' (lit ''0042'')) = ''preview'' \<and>
   sid_group (queryfy (parse ''preview'' (lit ''0042''))) = Some (lit ''__'')"
proof -
  have t: "sid_type (parse ''preview'' (lit ''0042'')) = ''preview''"
    by (simp add: parse_preview init_preview)
  from t queryfy_preview [OF t] show ?thesis by simp
qed

text \<open>
  Claim C5, amended.  For kind Lyrics or Preview the fields set, group and idx are absent
  after construction from any fields, after \<open>parse\<close> (whose id is the whole token) and
  after \<open>parseFromPath\<close>; after \<open>queryfy\<close> the fields set and idx are absent, the group is
  absent for Lyrics and is the two-underscore placeholder for Preview.  The query pattern
  of kind Preview does not use the group: the pattern of the queryfied identifier is the
  same whatever its group field is.
\<close>

theorem flat_kinds_fields_absent:
  assumes "t = ''lyrics'' \<or> t = ''preview''"
  shows "sid_set (StoryId_init t s g i x) = None \<and>
         sid_group (StoryId_init t s g i x) = None \<and>
         sid_idx (StoryId_init t s g i x) = None \<and>
         sid_set (parse t tok) = None \<and> sid_group (parse t tok) = None \<and>
         sid_idx (parse t tok) = None \<and> sid_id (parse t tok) = Some tok \<and>
         sid_set (parseFromPath t p) = None \<and> sid_group (parseFromPath t p) = None \<and>
         sid_idx (parseFromPath t p) = None \<and>
         (sid_type storyId = t \<longrightarrow>
            sid_set (queryfy storyId) = None \<and> sid_idx (queryfy storyId) = None \<and>
            sid_group (queryfy storyId) = (if t = ''lyrics'' then None else Some (lit ''__''))) \<and>
         (\<forall>grp. TYPE_CONFIG_pattern ''preview'' ((queryfy storyId)\<lparr>sid_group := grp\<rparr>) =
                  TYPE_CONFIG_pattern ''preview'' (queryfy storyId))"
  using assms
proof
  assume t: "t = ''lyrics''"
  have q: "sid_type storyId = ''lyrics'' \<longrightarrow>
      sid_set (queryfy storyId) = None \<and> sid_group (queryfy storyId) = None \<and>
      sid_idx (queryfy storyId) = None"
    using queryfy_lyrics by blast
  show ?thesis
    unfolding t using q
    by (simp add: init_lyrics parse_lyrics parseFromPath_lyrics truthy_def
          preview_pattern_ignores_group)
next
  assume t: "t = ''preview''"
  have q: "sid_type storyId = ''preview'' \<longrightarrow>
      sid_set (queryfy storyId) = None \<and> sid_group (queryfy storyId) = Some (lit ''__'') \<and>
      sid_idx (queryfy storyId) = None"
    using queryfy_preview by blast
  show ?thesis
    unfolding t using q
    by (simp add: init_preview parse_preview parseFromPath_preview truthy_def
          preview_pattern_ignores_group)
qed

text \<open>The amended theorem of C5 at identifiers of both kinds.\<close>

theorem flat_kinds_fields_absent_witness:
  "sid_group (StoryId_init ''lyrics'' (Some (lit ''00001'')) (Some (lit ''01''))
                (Some (lit ''1001'')) (Some (lit ''002''))) = None \<and>
   sid_idx (parse ''preview'' (lit ''0042'')) = None \<and>
   sid_group (parseFromPath ''lyrics'' (lit ''m1001/m1001_lyrics'')) = None \<and>
   sid_group (queryfy (parse ''lyrics'' (lit ''1001''))) = None \<and>
   sid_idx (queryfy (parse ''lyrics'' (lit ''1001''))) = None \<and>
   TYPE_CONFIG_pattern ''preview''
       ((queryfy (parse ''preview'' (lit ''0042'')))\<lparr>sid_group := None\<rparr>) =
     TYPE_CONFIG_pattern ''preview'' (queryfy (parse ''preview'' (lit ''0042'')))"
proof -
  have l: "''lyrics'' = ''lyrics'' \<or> ''lyrics'' = ''preview''" by simp
  have p: "''preview'' = ''lyrics'' \<or> ''preview'' = ''preview''" by simp
  have t: "sid_type (parse ''lyrics'' (lit ''1001'')) = ''lyrics''"
    by (simp add: parse_lyrics init_lyrics)
  from flat_kinds_fields_absent [OF l, of "Some (lit ''00001'')" "Some (lit ''01'')"
        "Some (lit ''1001'')" "Some (lit ''002'')" "lit ''1001''"
        "lit ''m1001/m1001_lyrics''" "parse ''lyrics'' (lit ''1001'')"] t
  have a: "sid_group (StoryId_init ''lyrics'' (Some (lit ''00001'')) (Some (lit ''01''))
                (Some (lit ''1001'')) (Some (lit ''002''))) = None"
    and b: "sid_group (parseFromPath ''lyrics'' (lit ''m1001/m1001_lyrics'')) = None"
    and c: "sid_group (queryfy (parse ''lyrics'' (lit ''1001''))) = None"
    and d: "sid_idx (queryfy (parse ''lyrics'' (lit ''1001''))) = None"
    by simp_all
  from flat_kinds_fields_absent [OF p, of _ _ _ _ "lit ''0042''" _
        "parse ''preview'' (lit ''0042'')"]
  have e: "sid_idx (parse ''preview'' (lit ''0042'')) = None"
    and f: "TYPE_CONFIG_pattern ''preview''
       ((queryfy (parse ''preview'' (lit ''0042'')))\<lparr>sid_group := None\<rparr>) =
     TYPE_CONFIG_pattern ''preview'' (queryfy (parse ''preview'' (lit ''0042'')))"
    by blast+
  from a b c d e f show ?thesis by blast
qed

section \<open>The patched marker\<close>

lemma is_patched_iff:
  "is_patched files p =
     (\<exists>bs. files p = Some (Content bs) \<and> 2 \<le> length bs \<and>
           drop (length bs - 2) bs = [0x08, 0x04])"
proof (cases "files p")
  case None
  then show ?thesis by (simp add: is_patched_def read_last2_def)
next
  case (Some f)
  then show ?thesis
    by (cases f) (auto simp add: is_patched_def read_last2_def editMark_def)
qed

lemma exportAsset_not_patched:
  assumes "output_exists pf fs current_args (parseFromPath (args_type current_args) unity_path)
             = Inr False"
    and "bundles fs (createPath bundle_hash) \<noteq> None"
    and "\<not> is_patched (bundles fs) (createPath bundle_hash)"
  shows "exportAsset pf fs bundle_hash unity_path bundle_key current_args =
           extract_and_write pf fs (createPath bundle_hash) bundle_key
           (parseFromPath (args_type current_args) unity_path) current_args"
  using assms by (auto simp add: exportAsset_def Let_def)

text \<open>
  Claim C10.  \<open>is_patched\<close> always returns a truth value: it is true exactly when the
  file has contents of at least two bytes whose last two bytes are \<open>08 04\<close>; it is false
  for an absent file, for an unreadable one and for one shorter than two bytes.  A bundle
  that exists but is unreadable or shorter than two bytes is therefore not skipped as
  patched: when no output stops the task first, \<open>exportAsset\<close> goes on to the extraction.
\<close>

theorem is_patched_total:
  "is_patched files p =
     (\<exists>bs. files p = Some (Content bs) \<and> 2 \<le> length bs \<and>
           drop (length bs - 2) bs = [0x08, 0x04]) \<and>
   (files p = None \<longrightarrow> \<not> is_patched files p) \<and>
   (files p = Some Unreadable \<longrightarrow> \<not> is_patched files p) \<and>
   (\<forall>bs. files p = Some (Content bs) \<and> length bs < 2 \<longrightarrow> \<not> is_patched files p) \<and>
   (output_exists pf fs current_args (parseFromPath (args_type current_args) unity_path)
      = Inr False \<and>
    (bundles fs (createPath bundle_hash) = Some Unreadable \<or>
     (\<exists>bs. bundles fs (createPath bundle_hash) = Some (Content bs) \<and> length bs < 2)) \<longrightarrow>
    exportAsset pf fs bundle_hash unity_path bundle_key current_args =
      extract_and_write pf fs (createPath bundle_hash) bundle_key
           (parseFromPath (args_type current_args) unity_path) current_args)"
proof (intro conjI impI allI)
  show "is_patched files p =
     (\<exists>bs. files p = Some (Content bs) \<and> 2 \<le> length bs \<and>
           drop (length bs - 2) bs = [0x08, 0x04])"
    by (rule is_patched_iff)
next
  assume "files p = None"
  then show "\<not> is_patched files p" by (simp add: is_patched_iff)
next
  assume "files p = Some Unreadable"
  then show "\<not> is_patched files p" by (simp add: is_patched_iff)
next
  fix bs assume "files p = Some (Content bs) \<and> length bs < 2"
  then show "\<not> is_patched files p" by (simp add: is_patched_iff)
next
  assume a: "output_exists pf fs current_args (parseFromPath (args_type current_args) unity_path)
      = Inr False \<and>
    (bundles fs (createPath bundle_hash) = Some Unreadable \<or>
     (\<exists>bs. bundles fs (createPath bundle_hash) = Some (Content bs) \<and> length bs < 2))"
  then have ex: "bundles fs (createPath bundle_hash) \<noteq> None" by auto
  from a have np: "\<not> is_patched (bundles fs) (createPath bundle_hash)"
    by (auto simp add: is_patched_iff)
  from a ex np show "exportAsset pf fs bundle_hash unity_path bundle_key current_args =
      extract_and_write pf fs (createPath bundle_hash) bundle_key
           (parseFromPath (args_type current_args) unity_path) current_args"
    by (intro exportAsset_not_patched) simp_all
qed

text \<open>
  The theorem of C10 on a file ending with the marker, a one-byte file, an unreadable
  file and an absent file.
\<close>

theorem is_patched_total_witness:
  "is_patched [[lit ''ab'', lit ''ab12''] \<mapsto> Content [0x55, 0x08, 0x04]] [lit ''ab'', lit ''ab12''] \<and>
   \<not> is_patched [[lit ''ab'', lit ''ab12''] \<mapsto> Content [0x04]] [lit ''ab'', lit ''ab12''] \<and>
   \<not> is_patched [[lit ''ab'', lit ''ab12''] \<mapsto> Unreadable] [lit ''ab'', lit ''ab12''] \<and>
   \<not> is_patched Map.empty [lit ''ab'', lit ''ab12'']"
proof -
  let ?p = "[lit ''ab'', lit ''ab12'']"
  have a: "is_patched [?p \<mapsto> Content [0x55, 0x08, 0x04]] ?p"
    using is_patched_total [of "[?p \<mapsto> Content [0x55, 0x08, 0x04]]" ?p] by simp
  have b: "\<not> is_patched [?p \<mapsto> Content [0x04]] ?p"
    using is_patched_total [of "[?p \<mapsto> Content [0x04]]" ?p] by simp
  have c: "\<not> is_patched [?p \<mapsto> Unreadable] ?p"
    using is_patched_total [of "[?p \<mapsto> Unreadable]" ?p] by simp
  have d: "\<not> is_patched Map.empty ?p"
    using is_patched_total [of Map.empty ?p] by simp
  from a b c d show ?thesis by blast
qed

section \<open>Extraction of lyrics bundles\<close>

lemma extractAsset_lyrics:
  assumes "args_type current_args = ''lyrics''"
  shows "extractAsset parse_bundle f key storyId current_args \<noteq> Inr (Some r)"
  using assms
  by (simp add: extractAsset_def TYPE_CONFIG_no_wrap_def
        split: sum.splits option.splits serialized_type.splits bool.splits)

lemma extract_and_write_lyrics:
  assumes "args_type current_args = ''lyrics''"
  shows "extract_and_write pf fs p key storyId current_args = (Inr None, fs)"
proof (cases "extractAsset (unitypy pf) (bundles fs p) key storyId current_args")
  case (Inl e)
  then show ?thesis by (simp add: extract_and_write_def)
next
  case (Inr res)
  with extractAsset_lyrics [OF assms] have "res = None"
    by (cases res) auto
  with Inr show ?thesis by (simp add: extract_and_write_def)
qed

lemma output_exists_lyrics:
  assumes "args_type current_args = ''lyrics''"
  shows "output_exists pf fs current_args (parseFromPath ''lyrics'' unity_path) =
           (if args_overwrite current_args then Inr False
            else any_glob pf fs (export_dir current_args (parseFromPath ''lyrics'' unity_path))
                   (slice_neg 11 7 unity_path))"
  using assms
  by (simp add: output_exists_def getFilenameIdx_def parseFromPath_def StoryId_init_def fmt_def
        truthy_def)

lemma any_glob_plain:
  "plain_prefix prefix \<Longrightarrow> \<exists>b. any_glob pf fs dir prefix = Inr b"
  by (simp add: any_glob_def)

lemma exportAsset_lyrics_cases:
  assumes "args_type current_args = ''lyrics''"
  shows "exportAsset pf fs bundle_hash unity_path key current_args = (Inr None, fs) \<or>
         (\<exists>e. output_exists pf fs current_args (parseFromPath ''lyrics'' unity_path) = Inl e \<and>
              exportAsset pf fs bundle_hash unity_path key current_args = (Inl e, fs))"
proof (cases "output_exists pf fs current_args (parseFromPath ''lyrics'' unity_path)")
  case (Inl e)
  with assms show ?thesis by (simp add: exportAsset_def Let_def)
next
  case (Inr b)
  with assms extract_and_write_lyrics [OF assms] show ?thesis
    by (cases b) (simp_all add: exportAsset_def Let_def)
qed

text \<open>
  Claim C6 says that a lyrics bundle with text rows yields one text block per row and is
  written.  \<open>extractAsset\<close> has a loop for the kinds story and home and a loop for the
  kind preview, and none for lyrics: for the type \<open>lyrics\<close> the block list stays empty and
  \<open>extractAsset\<close> never returns a record, whatever the bundle holds.  The task
  \<open>exportAsset\<close> then never returns a file name and leaves the file system as it is; it
  returns \<open>None\<close> whenever the identifier taken from the path has no wildcard or
  separator character (otherwise the look-up of an existing output may raise instead).
\<close>

theorem lyrics_never_extracted:
  assumes "args_type current_args = ''lyrics''"
  shows "(\<forall>r. extractAsset parse_bundle f key storyId current_args \<noteq> Inr (Some r)) \<and>
         snd (exportAsset pf fs bundle_hash unity_path key current_args) = fs \<and>
         (\<forall>filename. fst (exportAsset pf fs bundle_hash unity_path key current_args)
                       \<noteq> Inr (Some filename)) \<and>
         (plain_prefix (slice_neg 11 7 unity_path) \<longrightarrow>
            exportAsset pf fs bundle_hash unity_path key current_args = (Inr None, fs))"
proof (intro conjI impI)
  show "\<forall>r. extractAsset parse_bundle f key storyId current_args \<noteq> Inr (Some r)"
    using extractAsset_lyrics [OF assms] by blast
next
  show "snd (exportAsset pf fs bundle_hash unity_path key current_args) = fs"
    using exportAsset_lyrics_cases [OF assms, of pf fs bundle_hash unity_path key] by auto
next
  show "\<forall>filename. fst (exportAsset pf fs bundle_hash unity_path key current_args)
                       \<noteq> Inr (Some filename)"
    using exportAsset_lyrics_cases [OF assms, of pf fs bundle_hash unity_path key] by auto
next
  assume "plain_prefix (slice_neg 11 7 unity_path)"
  then have "\<exists>b. output_exists pf fs current_args (parseFromPath ''lyrics'' unity_path) = Inr b"
    using any_glob_plain [of "slice_neg 11 7 unity_path" pf fs]
    by (auto simp add: output_exists_lyrics [OF assms])
  then show "exportAsset pf fs bundle_hash unity_path key current_args = (Inr None, fs)"
    using exportAsset_lyrics_cases [OF assms, of pf fs bundle_hash unity_path key] by auto
qed

text \<open>
  The theorem of C6 on a bundle whose root object has a \<open>TextTrack\<close> with one row
  \<open>(12, "la la")\<close>: \<open>extractText\<close> would turn the row into a text block, and the task
  still returns \<open>None\<close>.
\<close>

theorem lyrics_never_extracted_witness:
  "extractText ''lyrics'' (Row (PList [PInt 12, PStr (lit ''la la'')])) =
     Inr (Some [(''jpText'', PStr (lit ''la la'')), (''enText'', PStr []), (''time'', PInt 12)]) \<and>
   exportAsset
     \<lparr>unitypy = (\<lambda>src. Inr \<lparr>env_objects =
                  [\<lparr>serialized_type = TypeNodes True,
                    typetree = Inr [(''TextTrack'', PList [PList [PInt 12, PStr (lit ''la la'')]])]\<rparr>],
                env_files = []\<rparr>),
      pathlib_glob = (\<lambda>files dir pattern. Inr False),
      os_write_error = (\<lambda>files file_path. None)\<rparr>
     \<lparr>bundles = [createPath (lit ''ab12'') \<mapsto> Content []], outputs = []\<rparr>
     (lit ''ab12'') (lit ''m1001/m1001_lyrics'') 0
     \<lparr>args_type = ''lyrics'', args_dst = [lit ''raw''], args_overwrite = False\<rparr> =
   (Inr None, \<lparr>bundles = [createPath (lit ''ab12'') \<mapsto> Content []], outputs = []\<rparr>)"
proof -
  have a: "extractText ''lyrics'' (Row (PList [PInt 12, PStr (lit ''la la'')])) =
     Inr (Some [(''jpText'', PStr (lit ''la la'')), (''enText'', PStr []), (''time'', PInt 12)])"
    by (simp add: extractText_def iterate_def)
  have t: "args_type \<lparr>args_type = ''lyrics'', args_dst = [lit ''raw''], args_overwrite = False\<rparr>
             = ''lyrics''" by simp
  have p: "plain_prefix (slice_neg 11 7 (lit ''m1001/m1001_lyrics''))"
    by (simp add: plain_prefix_def slice_neg_def lit_def)
  from a p lyrics_never_extracted [OF t, of _ _ _ _ _ _ _ "lit ''m1001/m1001_lyrics''"]
  show ?thesis by blast
qed

section \<open>The file name of a preview record\<close>

lemma parseFromPath_preview_fields:
  "parseFromPath ''preview'' p =
     \<lparr>sid_type = ''preview'', sid_set = None, sid_group = None,
      sid_id = Some (last_n 4 p), sid_idx = None\<rparr>"
  by (simp add: parseFromPath_def StoryId_init_def truthy_def)

lemma sanitize_Event: "sanitizeFilename (lit ''Event'') = lit ''Event''"
  by (simp add: sanitizeFilename_def lit_def)

lemma preview_filename_empty_title:
  "sanitizeFilename title = [] \<Longrightarrow>
   asset_filename ''preview'' (parseFromPath ''preview'' unity_path) (PStr title) =
     Inr (last_n 4 unity_path @ lit ''.json'')"
  by (simp add: asset_filename_def chars_of_def parseFromPath_preview_fields getFilenameIdx_def fmt_def)

text \<open>
  Claim C7 says that the file name of a preview record with a non-empty title is
  \<open><id> (<title>).json\<close>.  The entry of \<open>TYPE_CONFIG\<close> for preview builds that name
  from \<open>s.id\<close>, but \<open>extractAsset\<close> formats \<open>storyId.idx\<close>, which the constructor has
  set to \<open>None\<close> for this kind: the name it returns is \<open>None (<title>).json\<close>, for every
  path and every title that is not empty after sanitizing.  (With an empty title the name
  is \<open><id>.json\<close>, lemma \<open>preview_filename_empty_title\<close>.)
\<close>

theorem preview_filename_uses_idx:
  assumes "sanitizeFilename title \<noteq> []"
  shows "asset_filename ''preview'' (parseFromPath ''preview'' unity_path) (PStr title) =
           Inr (lit ''None ('' @ sanitizeFilename title @ lit '').json'') \<and>
         TYPE_CONFIG_filename ''preview'' (parseFromPath ''preview'' unity_path)
             (sanitizeFilename title) =
           Some (last_n 4 unity_path @ lit '' ('' @ sanitizeFilename title @ lit '').json'')"
  using assms
  by (simp add: asset_filename_def chars_of_def TYPE_CONFIG_filename_def parseFromPath_preview_fields
        fmt_def Let_def lit_def)

text \<open>
  The theorem of C7 for the path ending in \<open>asset_01234\<close> and the title \<open>Event\<close>: the code
  names the file \<open>None (Event).json\<close>, the table entry \<open>1234 (Event).json\<close>.
\<close>

theorem preview_filename_uses_idx_witness:
  "asset_filename ''preview'' (parseFromPath ''preview'' (lit ''log_ui_asset_01234''))
       (PStr (lit ''Event'')) = Inr (lit ''None (Event).json'') \<and>
   TYPE_CONFIG_filename ''preview'' (parseFromPath ''preview'' (lit ''log_ui_asset_01234''))
       (lit ''Event'') = Some (lit ''1234 (Event).json'')"
proof -
  have ne: "sanitizeFilename (lit ''Event'') \<noteq> []"
    unfolding sanitize_Event by (simp add: lit_def)
  have l: "last_n 4 (lit ''log_ui_asset_01234'') = lit ''1234''"
    by (simp add: last_n_def lit_def)
  from preview_filename_uses_idx [OF ne, of "lit ''log_ui_asset_01234''"]
  show ?thesis
    unfolding sanitize_Event l by (simp add: lit_def)
qed

section \<open>Running a task on a concrete file system\<close>

text \<open>The definitions unfolded to run a task on a concrete file system.\<close>

lemmas export_eval =
  exportAsset_def output_exists_def exists_output_def any_glob_def plain_prefix_def
  matches_glob_def export_dir_def createPath_def joinpath_def join_path_def
  is_absolute_def segment_parts_def asPath_def getFilenameIdx_def
  is_patched_def read_last2_def editMark_def extract_and_write_def writeJson_def
  encodable_export_def encodable_block_def extractAsset_def
  load_def parser_input_def load_data_def TYPE_CONFIG_no_wrap_def story_blocks_def
  block_blocks_def preview_blocks_def preview_block_def clip_block_def lookup_asset_def
  extractText_def nodes_of_def add_choices_def h_block_def dict_get_def dict_getitem_def
  getitem_def iterate_def asset_filename_def chars_of_def one_char_def
  sanitizeFilename_def fmt_def truthy_def
  parseFromPath_def StoryId_init_def StoryId_str_def List.map_filter_simps
  last_n_def slice_def slice_neg_def lit_def Let_def

section \<open>The batch: absent bundles and the pre-flight check\<close>


















text \<open>
  The calls of \<open>exportAsset\<close> outside its \<open>try\<close> block can raise, and \<open>main\<close> raises the
  exception again instead of printing a tally: here the look-up of an existing output for
  the identifier \<open>/abc\<close> on a platform whose \<open>glob\<close> refuses the pattern, and the write of
  a text that holds a surrogate code point, after which the file is left truncated.
\<close>

lemma glob_exception_example:
  "main_extract
     \<lparr>unitypy = (\<lambda>src. Inl ValueError),
      pathlib_glob = (\<lambda>files dir pattern. Inl NotImplementedError),
      os_write_error = (\<lambda>files file_path. None)\<rparr>
     \<lparr>args_type = ''preview'', args_dst = [lit ''raw''], args_overwrite = False\<rparr>
     \<lparr>bundles = [[lit ''cd'', lit ''cd34''] \<mapsto> Content []], outputs = []\<rparr>
     [(lit ''cd34'', lit ''log_ui_asset_01234'', 0),
      (lit ''ab12'', lit ''log_ui_asset_0/abc'', 0)]
   = (Raised NotImplementedError,
      \<lparr>bundles = [[lit ''cd'', lit ''cd34''] \<mapsto> Content []], outputs = []\<rparr>)"
  by (simp add: main_extract_def export_eval)

lemma write_exception_example:
  "main_extract
     \<lparr>unitypy = (\<lambda>src. Inr \<lparr>env_objects =
                  [\<lparr>serialized_type = TypeNodes True,
                    typetree = Inr [(''BlockList'',
                      PList [PDict [(''TextTrack'',
                        PDict [(''ClipList'', PList [PDict [(''m_PathID'', PInt 7)]])])]])]\<rparr>],
                env_files =
                  [(7, \<lparr>serialized_type = TypeNodes True,
                        typetree = Inr [(''Name'', PStr []), (''Text'', PStr [72, 55296]),
                                        (''NextBlock'', PInt 0)]\<rparr>)]\<rparr>),
      pathlib_glob = (\<lambda>files dir pattern. Inr False),
      os_write_error = (\<lambda>files file_path. None)\<rparr>
     \<lparr>args_type = ''story'', args_dst = [lit ''raw''], args_overwrite = False\<rparr>
     \<lparr>bundles = [[lit ''cd'', lit ''cd34''] \<mapsto> Content []], outputs = []\<rparr>
     [(lit ''cd34'', lit ''storytimeline_041001004'', 0)]
   = (Raised UnicodeEncodeError,
      \<lparr>bundles = [[lit ''cd'', lit ''cd34''] \<mapsto> Content []],
       outputs =
         [([lit ''raw'', lit ''story'', lit ''04'', lit ''1001'',
            lit ''storytimeline_041001004.json''],
           Truncated
            \<lparr>exp_title = PStr [], exp_no_wrap = False,
             exp_text_block_list =
               [\<lparr>blk_name = PStr [], blk_text = PStr [72, 55296],
                 blk_choice_data_list = None\<rparr>]\<rparr>)]\<rparr>)"
  by (simp add: main_extract_def export_eval)




section \<open>Running the extraction twice\<close>

text \<open>
  A task whose expected output exists returns \<open>None\<close> and leaves the file system as it
  is, whatever the bundle and the parser are; and for the kinds story and home a task
  that wrote its file is skipped when it runs again without the overwrite flag.
\<close>

lemma exportAsset_existing_output:
  assumes "output_exists pf fs current_args
             (parseFromPath (args_type current_args) unity_path) = Inr True"
  shows "exportAsset pf fs bundle_hash unity_path bundle_key current_args = (Inr None, fs)"
  using assms by (simp add: exportAsset_def Let_def)

lemma extractAsset_filename:
  assumes "extractAsset parse_bundle f key storyId current_args = Inr (Some (outData, filename))"
  shows "\<exists>title. asset_filename (args_type current_args) storyId title = Inr filename"
  using assms
  by (auto simp add: extractAsset_def
        split: sum.splits option.splits serialized_type.splits bool.splits if_splits)

lemma extract_and_write_Some:
  assumes "extract_and_write pf fs p key storyId current_args = (Inr (Some filename), fs1)"
  shows "\<exists>outData.
           extractAsset (unitypy pf) (bundles fs p) key storyId current_args
             = Inr (Some (outData, filename)) \<and>
           fs1 = fs\<lparr>outputs :=
                  (joinpath (export_dir current_args storyId) [filename], Document outData)
                  # outputs fs\<rparr>"
  using assms
  by (auto simp add: extract_and_write_def writeJson_def
        split: sum.splits option.splits prod.splits if_splits)

lemma story_home_rerun_skipped:
  assumes t: "args_type current_args = ''story'' \<or> args_type current_args = ''home''"
    and o: "\<not> args_overwrite current_args"
    and r: "exportAsset pf fs bundle_hash unity_path bundle_key current_args =
              (Inr (Some filename), fs1)"
  shows "exportAsset pf fs1 bundle_hash unity_path bundle_key current_args =
           (Inr None, fs1)"
proof -
  let ?sid = "parseFromPath (args_type current_args) unity_path"
  from r have ew: "extract_and_write pf fs (createPath bundle_hash) bundle_key ?sid
      current_args = (Inr (Some filename), fs1)"
    by (auto simp add: exportAsset_def Let_def split: sum.splits bool.splits if_splits)
  from extract_and_write_Some [OF ew] obtain outData where
    ea: "extractAsset (unitypy pf) (bundles fs (createPath bundle_hash)) bundle_key ?sid
           current_args = Inr (Some (outData, filename))" and
    fs1: "fs1 = fs\<lparr>outputs :=
            (joinpath (export_dir current_args ?sid) [filename], Document outData)
            # outputs fs\<rparr>"
    by blast
  from extractAsset_filename [OF ea] obtain title where
    fn: "asset_filename (args_type current_args) ?sid title = Inr filename" by blast
  have "output_exists pf fs1 current_args ?sid = Inr True"
    using t
  proof
    assume s: "args_type current_args = ''story''"
    with fn have "filename = lit ''storytimeline_'' @ StoryId_str ?sid @ lit ''.json''"
      by (simp add: asset_filename_def)
    with s o show ?thesis
      by (simp add: output_exists_def exists_output_def fs1 export_dir_def)
  next
    assume h: "args_type current_args = ''home''"
    with fn have "filename = lit ''hometimeline_'' @ fmt (sid_set ?sid) @ lit ''_''
                @ fmt (sid_group ?sid) @ lit ''_'' @ fmt (sid_id ?sid)
                @ fmt (sid_idx ?sid) @ lit ''.json''"
      by (simp add: asset_filename_def)
    with h o show ?thesis
      by (simp add: output_exists_def exists_output_def fs1 export_dir_def)
  qed
  then show ?thesis by (rule exportAsset_existing_output)
qed

text \<open>
  Claim C9 says that a second run without the overwrite flag skips every record the first
  run wrote.  For a preview record with a title the first run writes
  \<open>None (<title>).json\<close> (the defect of claim C7), which the check
  \<open>glob("<id>*.json")\<close> of the second run does not match: the second run extracts the
  bundle and writes the file again.  Here both runs return the file name, and the output
  tree records two writes of the same path.
\<close>

theorem preview_rerun_not_skipped:
  "exportAsset
     \<lparr>unitypy = (\<lambda>src. Inr \<lparr>env_objects =
                  [\<lparr>serialized_type = TypeNodes True,
                    typetree = Inr [(''TextTrack'', PList []),
                                    (''Title'', PStr (lit ''Event'')),
                                    (''DataArray'',
                                     PList [PDict [(''Name'', PStr (lit ''News'')),
                                                   (''Text'', PStr (lit ''Hello''))]])]\<rparr>],
                env_files = []\<rparr>),
      pathlib_glob = any_pathlib_glob,
      os_write_error = (\<lambda>files file_path. None)\<rparr>
     \<lparr>bundles = [[lit ''ab'', lit ''ab12''] \<mapsto> Content []], outputs = []\<rparr>
     (lit ''ab12'') (lit ''log_ui_asset_01234'') 0
     \<lparr>args_type = ''preview'', args_dst = [lit ''raw''], args_overwrite = False\<rparr>
   = (Inr (Some (lit ''None (Event).json'')),
      \<lparr>bundles = [[lit ''ab'', lit ''ab12''] \<mapsto> Content []],
       outputs =
         [([lit ''raw'', lit ''preview'', lit ''None (Event).json''],
           Document
            \<lparr>exp_title = PStr (lit ''Event''), exp_no_wrap = False,
             exp_text_block_list =
               [\<lparr>blk_name = PStr (lit ''News''), blk_text = PStr (lit ''Hello''),
                 blk_choice_data_list = None\<rparr>]\<rparr>)]\<rparr>) \<and>
   exportAsset
     \<lparr>unitypy = (\<lambda>src. Inr \<lparr>env_objects =
                  [\<lparr>serialized_type = TypeNodes True,
                    typetree = Inr [(''TextTrack'', PList []),
                                    (''Title'', PStr (lit ''Event'')),
                                    (''DataArray'',
                                     PList [PDict [(''Name'', PStr (lit ''News'')),
                                                   (''Text'', PStr (lit ''Hello''))]])]\<rparr>],
                env_files = []\<rparr>),
      pathlib_glob = any_pathlib_glob,
      os_write_error = (\<lambda>files file_path. None)\<rparr>
     \<lparr>bundles = [[lit ''ab'', lit ''ab12''] \<mapsto> Content []],
       outputs =
         [([lit ''raw'', lit ''preview'', lit ''None (Event).json''],
           Document
            \<lparr>exp_title = PStr (lit ''Event''), exp_no_wrap = False,
             exp_text_block_list =
               [\<lparr>blk_name = PStr (lit ''News''), blk_text = PStr (lit ''Hello''),
                 blk_choice_data_list = None\<rparr>]\<rparr>)]\<rparr>
     (lit ''ab12'') (lit ''log_ui_asset_01234'') 0
     \<lparr>args_type = ''preview'', args_dst = [lit ''raw''], args_overwrite = False\<rparr>
   = (Inr (Some (lit ''None (Event).json'')),
      \<lparr>bundles = [[lit ''ab'', lit ''ab12''] \<mapsto> Content []],
       outputs =
         [([lit ''raw'', lit ''preview'', lit ''None (Event).json''],
           Document
            \<lparr>exp_title = PStr (lit ''Event''), exp_no_wrap = False,
             exp_text_block_list =
               [\<lparr>blk_name = PStr (lit ''News''), blk_text = PStr (lit ''Hello''),
                 blk_choice_data_list = None\<rparr>]\<rparr>),
          ([lit ''raw'', lit ''preview'', lit ''None (Event).json''],
           Document
            \<lparr>exp_title = PStr (lit ''Event''), exp_no_wrap = False,
             exp_text_block_list =
               [\<lparr>blk_name = PStr (lit ''News''), blk_text = PStr (lit ''Hello''),
                 blk_choice_data_list = None\<rparr>]\<rparr>)]\<rparr>)"
proof
  show "exportAsset
     \<lparr>unitypy = (\<lambda>src. Inr \<lparr>env_objects =
                  [\<lparr>serialized_type = TypeNodes True,
                    typetree = Inr [(''TextTrack'', PList []),
                                    (''Title'', PStr (lit ''Event'')),
                                    (''DataArray'',
                                     PList [PDict [(''Name'', PStr (lit ''News'')),
                                                   (''Text'', PStr (lit ''Hello''))]])]\<rparr>],
                env_files = []\<rparr>),
      pathlib_glob = any_pathlib_glob,
      os_write_error = (\<lambda>files file_path. None)\<rparr>
     \<lparr>bundles = [[lit ''ab'', lit ''ab12''] \<mapsto> Content []], outputs = []\<rparr>
     (lit ''ab12'') (lit ''log_ui_asset_01234'') 0
     \<lparr>args_type = ''preview'', args_dst = [lit ''raw''], args_overwrite = False\<rparr>
   = (Inr (Some (lit ''None (Event).json'')),
      \<lparr>bundles = [[lit ''ab'', lit ''ab12''] \<mapsto> Content []],
       outputs =
         [([lit ''raw'', lit ''preview'', lit ''None (Event).json''],
           Document
            \<lparr>exp_title = PStr (lit ''Event''), exp_no_wrap = False,
             exp_text_block_list =
               [\<lparr>blk_name = PStr (lit ''News''), blk_text = PStr (lit ''Hello''),
                 blk_choice_data_list = None\<rparr>]\<rparr>)]\<rparr>)"
    by (simp add: export_eval)
next
  show "exportAsset
     \<lparr>unitypy = (\<lambda>src. Inr \<lparr>env_objects =
                  [\<lparr>serialized_type = TypeNodes True,
                    typetree = Inr [(''TextTrack'', PList []),
                                    (''Title'', PStr (lit ''Event'')),
                                    (''DataArray'',
                                     PList [PDict [(''Name'', PStr (lit ''News'')),
                                                   (''Text'', PStr (lit ''Hello''))]])]\<rparr>],
                env_files = []\<rparr>),
      pathlib_glob = any_pathlib_glob,
      os_write_error = (\<lambda>files file_path. None)\<rparr>
     \<lparr>bundles = [[lit ''ab'', lit ''ab12''] \<mapsto> Content []],
       outputs =
         [([lit ''raw'', lit ''preview'', lit ''None (Event).json''],
           Document
            \<lparr>exp_title = PStr (lit ''Event''), exp_no_wrap = False,
             exp_text_block_list =
               [\<lparr>blk_name = PStr (lit ''News''), blk_text = PStr (lit ''Hello''),
                 blk_choice_data_list = None\<rparr>]\<rparr>)]\<rparr>
     (lit ''ab12'') (lit ''log_ui_asset_01234'') 0
     \<lparr>args_type = ''preview'', args_dst = [lit ''raw''], args_overwrite = False\<rparr>
   = (Inr (Some (lit ''None (Event).json'')),
      \<lparr>bundles = [[lit ''ab'', lit ''ab12''] \<mapsto> Content []],
       outputs =
         [([lit ''raw'', lit ''preview'', lit ''None (Event).json''],
           Document
            \<lparr>exp_title = PStr (lit ''Event''), exp_no_wrap = False,
             exp_text_block_list =
               [\<lparr>blk_name = PStr (lit ''News''), blk_text = PStr (lit ''Hello''),
                 blk_choice_data_list = None\<rparr>]\<rparr>),
          ([lit ''raw'', lit ''preview'', lit ''None (Event).json''],
           Document
            \<lparr>exp_title = PStr (lit ''Event''), exp_no_wrap = False,
             exp_text_block_list =
               [\<lparr>blk_name = PStr (lit ''News''), blk_text = PStr (lit ''Hello''),
                 blk_choice_data_list = None\<rparr>]\<rparr>)]\<rparr>)"
    by (simp add: export_eval)
qed

end
